theory Spec2Isabelle
  imports Complex_Main
begin

section \<open>JavaScript values used by the stamp purchase form\<close>

text \<open>
  The text a user types into the depth and amount fields is parsed three ways
  (\<^verbatim>\<open>new BigNumber(s)\<close>, \<^verbatim>\<open>BigInt(s)\<close>, \<^verbatim>\<open>parseInt(s, 10)\<close>), and each parser looks at
  single UTF-16 code units. Typed text is therefore a list of code units.
  Messages, labels of notifications and rendered values, which the component only
  builds and shows, are ordinary strings.
\<close>

type_synonym js_string = "nat list"

definition js :: "string \<Rightarrow> js_string" where
  "js s = map of_char s"

text \<open>\<^verbatim>\<open>!s\<close> and \<^verbatim>\<open>Boolean(s)\<close> on a string: only the empty string is falsy.\<close>

definition truthy :: "'a list \<Rightarrow> bool" where
  "truthy s \<longleftrightarrow> s \<noteq> []"

text \<open>\<^verbatim>\<open>s.indexOf(c)\<close> for a one-character search string: the first index, or -1.\<close>

fun indexOf :: "js_string \<Rightarrow> nat \<Rightarrow> int" where
  "indexOf [] c = - 1"
| "indexOf (x # xs) c =
     (if x = c then 0 else (let i = indexOf xs c in if i < 0 then - 1 else i + 1))"

definition is_digit :: "nat \<Rightarrow> bool" where
  "is_digit c \<longleftrightarrow> 48 \<le> c \<and> c \<le> 57"

definition digits_value :: "js_string \<Rightarrow> nat" where
  "digits_value ds = foldl (\<lambda>a c. 10 * a + (c - 48)) 0 ds"

text \<open>
  White space as \<^verbatim>\<open>parseInt\<close> and \<^verbatim>\<open>BigInt\<close> trim it (ECMAScript WhiteSpace and
  LineTerminator): TAB, LF, VT, FF, CR, SP, NBSP, U+1680, U+2000..U+200A, U+2028,
  U+2029, U+202F, U+205F, U+3000, U+FEFF.
\<close>

definition is_ws :: "nat \<Rightarrow> bool" where
  "is_ws c \<longleftrightarrow>
     c \<in> {9, 10, 11, 12, 13, 32, 160, 5760, 8232, 8233, 8239, 8287, 12288, 65279}
     \<or> (8192 \<le> c \<and> c \<le> 8202)"

definition trim :: "js_string \<Rightarrow> js_string" where
  "trim s = rev (dropWhile is_ws (rev (dropWhile is_ws s)))"

subsection \<open>Numbers returned by \<^verbatim>\<open>parseInt\<close>\<close>

text \<open>
  The only numbers the component computes itself are results of \<^verbatim>\<open>parseInt\<close>:
  \<^verbatim>\<open>NaN\<close>, or the Number for a mathematical integer. \<open>Num n\<close> stands for the
  Number nearest to \<open>n\<close>; the component only compares it with 0, 17 and 255 (which
  rounding to a double cannot change) and passes it on. The sign of a zero is not
  kept.
\<close>

datatype js_number = NaN | Num int

text \<open>The value of a code unit as a digit in radix \<open>R\<close>, if it is one.\<close>

definition radix_digit :: "nat \<Rightarrow> nat \<Rightarrow> nat option" where
  "radix_digit R c =
     (let v = (if 48 \<le> c \<and> c \<le> 57 then Some (c - 48)
               else if 97 \<le> c \<and> c \<le> 122 then Some (c - 87)
               else if 65 \<le> c \<and> c \<le> 90 then Some (c - 55)
               else None)
      in case v of None \<Rightarrow> None | Some d \<Rightarrow> if d < R then Some d else None)"

definition radix_value :: "nat \<Rightarrow> js_string \<Rightarrow> nat" where
  "radix_value R ds = foldl (\<lambda>a c. R * a + (case radix_digit R c of None \<Rightarrow> 0 | Some d \<Rightarrow> d)) 0 ds"

text \<open>
  \<^verbatim>\<open>parseInt(string, radix)\<close>; \<open>None\<close> is a call without the radix argument.
  Leading white space is skipped, one sign is read, a \<^verbatim>\<open>0x\<close> prefix is read
  when the radix is absent, 0 or 16, and the longest prefix of digits gives the value.
\<close>

definition parseInt :: "js_string \<Rightarrow> nat option \<Rightarrow> js_number" where
  "parseInt string radix =
     (let S = dropWhile is_ws string;
          neg = (case S of [] \<Rightarrow> False | c # _ \<Rightarrow> c = 45);
          S1 = (case S of [] \<Rightarrow> [] | c # r \<Rightarrow> if c = 43 \<or> c = 45 then r else S);
          R0 = (case radix of None \<Rightarrow> 0 | Some r \<Rightarrow> r)
      in if R0 \<noteq> 0 \<and> (R0 < 2 \<or> 36 < R0) then NaN
         else
           let stripPrefix = (R0 = 0 \<or> R0 = 16);
               hex = (stripPrefix \<and>
                      (case S1 of a # b # _ \<Rightarrow> a = 48 \<and> (b = 120 \<or> b = 88) | _ \<Rightarrow> False));
               R = (if hex then 16 else if R0 = 0 then 10 else R0);
               S2 = (if hex then drop 2 S1 else S1);
               Z = takeWhile (\<lambda>c. radix_digit R c \<noteq> None) S2
           in if Z = [] then NaN
              else Num (if neg then - int (radix_value R Z) else int (radix_value R Z)))"

subsection \<open>\<^verbatim>\<open>BigInt(string)\<close>\<close>

text \<open>
  StringToBigInt: the text is trimmed; the empty text is 0; otherwise it must be
  decimal digits with at most one sign, or an unsigned \<^verbatim>\<open>0x\<close>, \<^verbatim>\<open>0o\<close> or \<^verbatim>\<open>0b\<close>
  literal. Anything else makes \<^verbatim>\<open>BigInt\<close> throw a SyntaxError: \<open>None\<close>.
\<close>

definition all_digits :: "js_string \<Rightarrow> bool" where
  "all_digits ds \<longleftrightarrow> ds \<noteq> [] \<and> list_all is_digit ds"

definition all_radix_digits :: "nat \<Rightarrow> js_string \<Rightarrow> bool" where
  "all_radix_digits R ds \<longleftrightarrow> ds \<noteq> [] \<and> list_all (\<lambda>c. radix_digit R c \<noteq> None) ds"

definition BigInt :: "js_string \<Rightarrow> int option" where
  "BigInt str =
     (case trim str of
        [] \<Rightarrow> Some 0
      | c # r \<Rightarrow>
          if c = 43 then
            (if all_digits r then Some (int (digits_value r)) else None)
          else if c = 45 then
            (if all_digits r then Some (- int (digits_value r)) else None)
          else if all_digits (c # r) then Some (int (digits_value (c # r)))
          else if c = 48 then
            (case r of
               [] \<Rightarrow> None
             | p # ds \<Rightarrow>
                 if p = 120 \<or> p = 88 then
                   (if all_radix_digits 16 ds then Some (int (radix_value 16 ds)) else None)
                 else if p = 111 \<or> p = 79 then
                   (if all_radix_digits 8 ds then Some (int (radix_value 8 ds)) else None)
                 else if p = 98 \<or> p = 66 then
                   (if all_radix_digits 2 ds then Some (int (radix_value 2 ds)) else None)
                 else None)
          else None)"

text \<open>\<^verbatim>\<open>amount.toString()\<close> on a bigint: its decimal digits, with a minus sign if negative.\<close>

fun nat_toString :: "nat \<Rightarrow> string" where
  "nat_toString n =
     (if n < 10 then [''0123456789'' ! n]
      else nat_toString (n div 10) @ [''0123456789'' ! (n mod 10)])"

definition bigint_toString :: "int \<Rightarrow> string" where
  "bigint_toString i = (if i < 0 then CHR ''-'' # nat_toString (nat (- i)) else nat_toString (nat i))"

section \<open>bignumber.js\<close>

text \<open>
  A BigNumber is \<^verbatim>\<open>NaN\<close>, an infinity or a finite decimal. (The sign of a zero is
  not kept: none of the methods used here can see it.)
\<close>

datatype bignumber = BN_NaN | BN_Infinity | BN_NegInfinity | BN_Finite rat

definition isNaN :: "bignumber \<Rightarrow> bool" where
  "isNaN x \<longleftrightarrow> x = BN_NaN"

definition isInteger :: "bignumber \<Rightarrow> bool" where
  "isInteger x = (case x of BN_Finite r \<Rightarrow> of_int \<lfloor>r\<rfloor> = r | _ \<Rightarrow> False)"

text \<open>
  \<^verbatim>\<open>compare(x, y)\<close>: -1, 0 or 1, and \<^verbatim>\<open>null\<close> when either is \<^verbatim>\<open>NaN\<close>. The three
  tests read it as the library does: \<^verbatim>\<open>null\<close> makes each of them false.
\<close>

fun compare :: "bignumber \<Rightarrow> bignumber \<Rightarrow> int option" where
  "compare BN_NaN y = None"
| "compare x BN_NaN = None"
| "compare BN_Infinity BN_Infinity = Some 0"
| "compare BN_Infinity y = Some 1"
| "compare BN_NegInfinity BN_NegInfinity = Some 0"
| "compare BN_NegInfinity y = Some (- 1)"
| "compare (BN_Finite a) BN_Infinity = Some (- 1)"
| "compare (BN_Finite a) BN_NegInfinity = Some 1"
| "compare (BN_Finite a) (BN_Finite b) = Some (if a < b then - 1 else if a = b then 0 else 1)"

definition isLessThan :: "bignumber \<Rightarrow> int \<Rightarrow> bool" where
  "isLessThan x n = (case compare x (BN_Finite (of_int n)) of None \<Rightarrow> False | Some c \<Rightarrow> c < 0)"

definition isLessThanOrEqualTo :: "bignumber \<Rightarrow> int \<Rightarrow> bool" where
  "isLessThanOrEqualTo x n =
     (case compare x (BN_Finite (of_int n)) of None \<Rightarrow> False | Some c \<Rightarrow> c = - 1 \<or> c = 0)"

definition isGreaterThan :: "bignumber \<Rightarrow> int \<Rightarrow> bool" where
  "isGreaterThan x n = (case compare x (BN_Finite (of_int n)) of None \<Rightarrow> False | Some c \<Rightarrow> c > 0)"

subsection \<open>The constructor on a string\<close>

text \<open>
  \<^verbatim>\<open>new BigNumber(str)\<close> first tests \<^verbatim>\<open>str\<close> against
  \<^verbatim>\<open>/^-?(?:\d+(?:\.\d*)?|\.\d+)(?:e[+-]?\d+)?$/i\<close>. \<open>isNumeric\<close> is that test; it also
  returns the parts the constructor then reads: the sign, the digits before and after
  the point and the exponent.
\<close>

record numeric_literal =
  negative :: bool
  int_digits :: js_string
  frac_digits :: js_string
  exponent :: int

definition parse_exponent :: "js_string \<Rightarrow> int option" where
  "parse_exponent r =
     (case r of
        [] \<Rightarrow> Some 0
      | c # r1 \<Rightarrow>
          if c = 101 \<or> c = 69 then
            (let neg = (case r1 of [] \<Rightarrow> False | s # _ \<Rightarrow> s = 45);
                 ds = (case r1 of [] \<Rightarrow> [] | s # r2 \<Rightarrow> if s = 43 \<or> s = 45 then r2 else r1)
             in if all_digits ds
                then Some (if neg then - int (digits_value ds) else int (digits_value ds))
                else None)
          else None)"

definition isNumeric :: "js_string \<Rightarrow> numeric_literal option" where
  "isNumeric str =
     (let neg = (case str of [] \<Rightarrow> False | c # _ \<Rightarrow> c = 45);
          s = (case str of [] \<Rightarrow> [] | c # r \<Rightarrow> if c = 45 then r else str);
          ip = takeWhile is_digit s;
          r1 = dropWhile is_digit s;
          has_dot = (case r1 of [] \<Rightarrow> False | c # _ \<Rightarrow> c = 46);
          r2 = (if has_dot then tl r1 else r1);
          fp = (if has_dot then takeWhile is_digit r2 else []);
          r3 = (if has_dot then dropWhile is_digit r2 else r2)
      in if ip = [] \<and> fp = [] then None
         else case parse_exponent r3 of
                None \<Rightarrow> None
              | Some x \<Rightarrow>
                  Some \<lparr>negative = neg, int_digits = ip, frac_digits = fp, exponent = x\<rparr>)"

text \<open>
  The default \<^verbatim>\<open>RANGE\<close> of the library: a number whose exponent in scientific
  notation is above \<open>MAX_EXP\<close> becomes an infinity, one below \<open>MIN_EXP\<close> becomes zero.
\<close>

definition MAX_EXP :: int where
  "MAX_EXP = 10000000"

definition MIN_EXP :: int where
  "MIN_EXP = - 10000000"

definition pow10 :: "int \<Rightarrow> rat" where
  "pow10 e = (if 0 \<le> e then 10 ^ nat e else 1 / 10 ^ nat (- e))"

text \<open>
  The value of a literal that passed the test. The constructor drops the point, adds
  the written exponent to the position of the point, counts the leading zeros \<open>i\<close> and
  checks the exponent of the first significant digit against the range.
\<close>

definition numeric_value :: "numeric_literal \<Rightarrow> bignumber" where
  "numeric_value p =
     (let ds = int_digits p @ frac_digits p;
          i = length (takeWhile (\<lambda>c. c = 48) ds)
      in if i = length ds then BN_Finite 0
         else
           let e = int (length (int_digits p)) + exponent p - int i - 1
           in if e > MAX_EXP then (if negative p then BN_NegInfinity else BN_Infinity)
              else if e < MIN_EXP then BN_Finite 0
              else BN_Finite ((if negative p then - 1 else 1) * of_nat (digits_value ds)
                     * pow10 (exponent p - int (length (frac_digits p)))))"

text \<open>
  A string that fails the test goes to the library's \<^verbatim>\<open>parseNumeric\<close>, which trims
  white space and a leading plus sign, reads \<^verbatim>\<open>Infinity\<close> and \<^verbatim>\<open>NaN\<close>, converts
  \<^verbatim>\<open>0x\<close>, \<^verbatim>\<open>0b\<close> and \<^verbatim>\<open>0o\<close> literals and answers \<^verbatim>\<open>NaN\<close> for the rest (the
  library's \<^verbatim>\<open>DEBUG\<close> switch is off, so it never throws). The form does not depend
  on what it answers, so it is a parameter \<open>pn\<close> of the model: every theorem below
  holds for each such function.
\<close>

type_synonym parseNumeric = "js_string \<Rightarrow> bignumber"

definition BigNumber :: "parseNumeric \<Rightarrow> js_string \<Rightarrow> bignumber" where
  "BigNumber pn str = (case isNumeric str of Some p \<Rightarrow> numeric_value p | None \<Rightarrow> pn str)"

section \<open>The form's state and its two validators\<close>

text \<open>The \<^verbatim>\<open>useState\<close> cells of \<^verbatim>\<open>PostageStampAdvancedCreation\<close>, with their initial values.\<close>

record form_state =
  depthInput :: js_string
  amountInput :: js_string
  labelInput :: js_string
  immutable :: bool
  depthError :: string
  amountError :: string
  submitting :: bool

definition initial_state :: form_state where
  "initial_state =
     \<lparr>depthInput = [], amountInput = [], labelInput = [], immutable = False,
      depthError = [], amountError = [], submitting = False\<rparr>"

definition validateAmountInput :: "parseNumeric \<Rightarrow> js_string \<Rightarrow> form_state \<Rightarrow> form_state" where
  "validateAmountInput pn input st =
     (if \<not> truthy input then
        st\<lparr>amountError := ''Required field'', amountInput := js ''0''\<rparr>
      else if indexOf input 46 > - 1 then
        st\<lparr>amountError := ''Amount must be an integer'', amountInput := js ''0''\<rparr>
      else
        let amount = BigNumber pn input
        in if isNaN amount then
             st\<lparr>amountError := ''Amount must contain only digits'', amountInput := js ''0''\<rparr>
           else if isLessThanOrEqualTo amount 0 then
             st\<lparr>amountError := ''Amount must be greater than 0'', amountInput := js ''0''\<rparr>
           else
             st\<lparr>amountError := [], amountInput := input\<rparr>)"

definition validateDepthInput :: "parseNumeric \<Rightarrow> js_string \<Rightarrow> form_state \<Rightarrow> form_state" where
  "validateDepthInput pn input st =
     (if \<not> truthy input then
        st\<lparr>depthError := ''Required field'', depthInput := js ''0''\<rparr>
      else
        let depth = BigNumber pn input
        in if \<not> isInteger depth then
             st\<lparr>depthError := ''Depth must be an integer'', depthInput := js ''0''\<rparr>
           else if isLessThan depth 17 then
             st\<lparr>depthError := ''Minimal depth is 17'', depthInput := js ''0''\<rparr>
           else if isGreaterThan depth 255 then
             st\<lparr>depthError := ''Depth has to be at most 255'', depthInput := js ''0''\<rparr>
           else
             st\<lparr>depthError := [], depthInput := input\<rparr>)"

text \<open>
  A field edit calls the validator of its field (\<^verbatim>\<open>onChange\<close>); the label and the
  immutable choice are stored as they are.
\<close>

datatype edit =
    EditDepth js_string
  | EditAmount js_string
  | EditLabel js_string
  | EditImmutable js_string

definition apply_edit :: "parseNumeric \<Rightarrow> form_state \<Rightarrow> edit \<Rightarrow> form_state" where
  "apply_edit pn st e =
     (case e of
        EditDepth v \<Rightarrow> validateDepthInput pn v st
      | EditAmount v \<Rightarrow> validateAmountInput pn v st
      | EditLabel v \<Rightarrow> st\<lparr>labelInput := v\<rparr>
      | EditImmutable v \<Rightarrow> st\<lparr>immutable := (v = js ''Yes'')\<rparr>)"

definition apply_edits :: "parseNumeric \<Rightarrow> form_state \<Rightarrow> edit list \<Rightarrow> form_state" where
  "apply_edits pn st es = foldl (apply_edit pn) st es"

text \<open>The \<^verbatim>\<open>disabled\<close> property of the button that calls \<^verbatim>\<open>submit\<close>.\<close>

definition submit_disabled :: "form_state \<Rightarrow> bool" where
  "submit_disabled st \<longleftrightarrow>
     submitting st \<or> truthy (depthError st) \<or> truthy (amountError st)
     \<or> \<not> truthy (depthInput st) \<or> \<not> truthy (amountInput st)"

section \<open>Derived values shown by the form\<close>

text \<open>
  The conversions come from \<^verbatim>\<open>utils\<close> and \<^verbatim>\<open>utils/file\<close>, which are outside the two
  source files; \<^verbatim>\<open>toSignificantDigits\<close> is a method of the price they return and
  \<^verbatim>\<open>toFixed\<close> is \<^verbatim>\<open>Number.prototype.toFixed(0)\<close>. The form only composes them, so
  they are parameters, with the types of their results left open.
\<close>

record ('b, 's, 'p) utils =
  convertDepthToBytes :: "js_number \<Rightarrow> 'b"
  getHumanReadableFileSize :: "'b \<Rightarrow> string"
  convertAmountToSeconds :: "js_number \<Rightarrow> js_number \<Rightarrow> 's"
  secondsToTimeString :: "'s \<Rightarrow> string"
  calculateStampPrice :: "js_number \<Rightarrow> int \<Rightarrow> 'p"
  toSignificantDigits :: "'p \<Rightarrow> string"
  toFixed :: "js_number \<Rightarrow> string"

record chain_state =
  currentPrice :: js_string

text \<open>Comparisons of a Number with an integer constant: each is false on \<^verbatim>\<open>NaN\<close>.\<close>

definition global_isNaN :: "js_number \<Rightarrow> bool" where
  "global_isNaN x \<longleftrightarrow> x = NaN"

definition num_lt :: "js_number \<Rightarrow> int \<Rightarrow> bool" where
  "num_lt x k = (case x of NaN \<Rightarrow> False | Num n \<Rightarrow> n < k)"

definition num_le :: "js_number \<Rightarrow> int \<Rightarrow> bool" where
  "num_le x k = (case x of NaN \<Rightarrow> False | Num n \<Rightarrow> n \<le> k)"

definition num_gt :: "js_number \<Rightarrow> int \<Rightarrow> bool" where
  "num_gt x k = (case x of NaN \<Rightarrow> False | Num n \<Rightarrow> n > k)"

definition getFileSize :: "('b, 's, 'p) utils \<Rightarrow> js_number \<Rightarrow> string" where
  "getFileSize u depth =
     (if global_isNaN depth \<or> num_lt depth 17 \<or> num_gt depth 255 then ''-''
      else ''~'' @ getHumanReadableFileSize u (convertDepthToBytes u depth))"

definition getTtl :: "('b, 's, 'p) utils \<Rightarrow> chain_state option \<Rightarrow> js_number \<Rightarrow> string" where
  "getTtl u chainState amount =
     (case chainState of
        None \<Rightarrow> ''-''
      | Some cs \<Rightarrow>
          if num_le amount 0 \<or> \<not> truthy (currentPrice cs) then ''-''
          else
            let pricePerBlock = parseInt (currentPrice cs) (Some 10)
            in secondsToTimeString u (convertAmountToSeconds u amount pricePerBlock)
               @ '' (with price of '' @ toFixed u pricePerBlock @ '' per block)'')"

definition getPrice :: "('b, 's, 'p) utils \<Rightarrow> js_number \<Rightarrow> int \<Rightarrow> string" where
  "getPrice u depth amount =
     (if amount \<le> 0 \<or> global_isNaN depth \<or> num_lt depth 17 \<or> num_gt depth 255 then ''-''
      else toSignificantDigits u (calculateStampPrice u depth amount) @ '' xBZZ'')"

text \<open>
  The three guarded expressions of the rendered form. The price expression calls
  \<^verbatim>\<open>BigInt(amountInput)\<close> while rendering; \<open>None\<close> is that call throwing.
\<close>

definition file_size_display :: "('b, 's, 'p) utils \<Rightarrow> form_state \<Rightarrow> string" where
  "file_size_display u st =
     (if \<not> truthy (depthError st) \<and> truthy (depthInput st)
      then getFileSize u (parseInt (depthInput st) (Some 10)) else ''-'')"

definition ttl_display :: "('b, 's, 'p) utils \<Rightarrow> chain_state option \<Rightarrow> form_state \<Rightarrow> string" where
  "ttl_display u chainState st =
     (if \<not> truthy (amountError st) \<and> truthy (amountInput st)
      then getTtl u chainState (parseInt (amountInput st) (Some 10)) else ''-'')"

definition price_display :: "('b, 's, 'p) utils \<Rightarrow> form_state \<Rightarrow> string option" where
  "price_display u st =
     (if \<not> truthy (amountError st) \<and> \<not> truthy (depthError st)
         \<and> truthy (amountInput st) \<and> truthy (depthInput st)
      then (case BigInt (amountInput st) of
              None \<Rightarrow> None
            | Some amount \<Rightarrow> Some (getPrice u (parseInt (depthInput st) (Some 10)) amount))
      else Some ''-'')"

section \<open>Submitting the purchase, and the deposit action\<close>

datatype js_error = Error (message: string)

type_synonym batch_id = string
type_synonym transaction_hash = string

record postage_batch_options =
  waitForUsable :: bool
  label :: "js_string option"
  immutableFlag :: bool

text \<open>
  The debug API client. A call either returns or throws; what it answers is the
  node's business, so each operation is a function to its outcome.
\<close>

record bee_debug_api =
  createPostageBatch :: "string \<Rightarrow> js_number \<Rightarrow> postage_batch_options \<Rightarrow> js_error + batch_id"
  depositTokens :: "string \<Rightarrow> js_error + transaction_hash"

text \<open>
  What the component gets from its contexts and properties: the API client if one is
  configured, the poll for the new batch, the outcome of the stamp list's
  \<^verbatim>\<open>refresh\<close> and of the caller's \<^verbatim>\<open>onFinished\<close>, and the SyntaxError that the engine
  throws when \<^verbatim>\<open>BigInt\<close> rejects a text.
\<close>

record env =
  beeDebugApi :: "bee_debug_api option"
  waitUntilStampExists :: "batch_id \<Rightarrow> bee_debug_api \<Rightarrow> js_error + unit"
  refresh :: "js_error + unit"
  onFinished :: "js_error + unit"
  syntaxError :: "js_string \<Rightarrow> js_error"

text \<open>Everything a run does to the outside, in order.\<close>

datatype event =
    SetSubmitting bool
  | CreatePostageBatch string js_number postage_batch_options
  | WaitUntilStampExists batch_id
  | StampsRefresh
  | OnFinished
  | ConsoleError js_error
  | EnqueueSnackbar string string
  | DepositTokens string
  | BeeRefresh

text \<open>The \<^verbatim>\<open>options\<close> object: \<^verbatim>\<open>labelInput || undefined\<close> drops an empty label.\<close>

definition postageBatchOptions :: "form_state \<Rightarrow> postage_batch_options" where
  "postageBatchOptions st =
     \<lparr>waitForUsable = False,
      label = (if truthy (labelInput st) then Some (labelInput st) else None),
      immutableFlag = immutable st\<rparr>"

text \<open>
  The statements of the \<^verbatim>\<open>try\<close> block after \<^verbatim>\<open>setSubmitting(true)\<close>: the calls made,
  and the exception if one was thrown.
\<close>

definition submit_calls :: "env \<Rightarrow> bee_debug_api \<Rightarrow> form_state \<Rightarrow> event list \<times> js_error option" where
  "submit_calls e api st =
     (case BigInt (amountInput st) of
        None \<Rightarrow> ([], Some (syntaxError e (amountInput st)))
      | Some amount \<Rightarrow>
          let depth = parseInt (depthInput st) None;
              options = postageBatchOptions st;
              create = CreatePostageBatch (bigint_toString amount) depth options
          in (case createPostageBatch api (bigint_toString amount) depth options of
               Inl err \<Rightarrow> ([create], Some err)
             | Inr batchId \<Rightarrow>
                 (case waitUntilStampExists e batchId api of
                    Inl err \<Rightarrow> ([create, WaitUntilStampExists batchId], Some err)
                  | Inr _ \<Rightarrow>
                      (case refresh e of
                         Inl err \<Rightarrow> ([create, WaitUntilStampExists batchId, StampsRefresh], Some err)
                       | Inr _ \<Rightarrow>
                           (case onFinished e of
                              Inl err \<Rightarrow>
                                ([create, WaitUntilStampExists batchId, StampsRefresh, OnFinished],
                                 Some err)
                            | Inr _ \<Rightarrow>
                                ([create, WaitUntilStampExists batchId, StampsRefresh, OnFinished],
                                 None))))))"

text \<open>
  \<^verbatim>\<open>submit\<close>. The two guards \<^verbatim>\<open>return\<close> from inside the \<^verbatim>\<open>try\<close>, so nothing after
  it runs. Otherwise the flag is set, the calls are made, an exception is logged and
  shown, and the flag is cleared.
\<close>

definition submit :: "env \<Rightarrow> form_state \<Rightarrow> form_state \<times> event list" where
  "submit e st =
     (if \<not> truthy (depthInput st) \<or> \<not> truthy (amountInput st) then (st, [])
      else case beeDebugApi e of
             None \<Rightarrow> (st, [])
           | Some api \<Rightarrow>
               (case submit_calls e api st of
                  (calls, None) \<Rightarrow>
                    (st\<lparr>submitting := False\<rparr>, SetSubmitting True # calls @ [SetSubmitting False])
                | (calls, Some err) \<Rightarrow>
                    (st\<lparr>submitting := False\<rparr>,
                     SetSubmitting True # calls
                     @ [ConsoleError err, EnqueueSnackbar (''Error: '' @ message err) ''error'',
                        SetSubmitting False])))"

text \<open>
  The \<^verbatim>\<open>action\<close> of \<^verbatim>\<open>DepositModal\<close>: the result or the exception, and the calls
  made. \<^verbatim>\<open>refresh\<close> (of the Bee context) is started and not awaited.
\<close>

definition deposit_action :: "env \<Rightarrow> int \<Rightarrow> (js_error + transaction_hash) \<times> event list" where
  "deposit_action e amount =
     (case beeDebugApi e of
        None \<Rightarrow> (Inl (Error ''Bee Debug URL is not valid''), [])
      | Some api \<Rightarrow>
          (case depositTokens api (bigint_toString amount) of
             Inl err \<Rightarrow> (Inl err, [DepositTokens (bigint_toString amount)])
           | Inr transactionHash \<Rightarrow>
               (Inr transactionHash, [DepositTokens (bigint_toString amount), BeeRefresh])))"

section \<open>An example run\<close>

text \<open>
  A client whose calls succeed, a context around it and a form with the depth "20"
  and the amount "100": the values at which the theorems below are instantiated.
\<close>

definition example_api :: bee_debug_api where
  "example_api =
     \<lparr>createPostageBatch = (\<lambda>a d opts. Inr ''batch''), depositTokens = (\<lambda>a. Inr ''tx'')\<rparr>"

definition example_env :: env where
  "example_env =
     \<lparr>beeDebugApi = Some example_api, waitUntilStampExists = (\<lambda>b a. Inr ()),
      refresh = Inr (), onFinished = Inr (),
      syntaxError = (\<lambda>s. Error ''Cannot convert to a BigInt'')\<rparr>"

definition example_form :: form_state where
  "example_form =
     \<lparr>depthInput = js ''20'', amountInput = js ''100'', labelInput = [], immutable = False,
      depthError = [], amountError = [], submitting = False\<rparr>"

text \<open>
  Stand-ins for the conversions of \<^verbatim>\<open>utils\<close>, of the right shapes, and a chain state
  with the price 24000 per block.
\<close>

definition example_utils :: "(int, int, int) utils" where
  "example_utils =
     \<lparr>convertDepthToBytes = (\<lambda>d. case d of NaN \<Rightarrow> 0 | Num n \<Rightarrow> 2 ^ nat n * 4096),
      getHumanReadableFileSize = (\<lambda>b. if b < 2 ^ 40 then ''small'' else ''large''),
      convertAmountToSeconds =
        (\<lambda>a p. case a of NaN \<Rightarrow> 0 | Num x \<Rightarrow> (case p of NaN \<Rightarrow> 0 | Num y \<Rightarrow> x * 5 div y)),
      secondsToTimeString = (\<lambda>s. bigint_toString s @ '' seconds''),
      calculateStampPrice = (\<lambda>d a. case d of NaN \<Rightarrow> 0 | Num n \<Rightarrow> a * 2 ^ nat n),
      toSignificantDigits = bigint_toString,
      toFixed = (\<lambda>x. case x of NaN \<Rightarrow> ''NaN'' | Num n \<Rightarrow> bigint_toString n)\<rparr>"

definition example_chain_state :: chain_state where
  "example_chain_state = \<lparr>currentPrice = js ''24000''\<rparr>"

section \<open>Facts about the parsers\<close>

declare nat_toString.simps [simp del]

lemma indexOf_ge: "- 1 \<le> indexOf s c"
  by (induction s) (auto simp: Let_def)

lemma indexOf_found: "indexOf s c > - 1 \<longleftrightarrow> c \<in> set s"
  using indexOf_ge by (induction s) (auto simp: Let_def)

lemma foldl_digits_acc:
  "foldl (\<lambda>a c. 10 * a + (c - 48)) (a::nat) ds
     = a * 10 ^ length ds + foldl (\<lambda>a c. 10 * a + (c - 48)) 0 ds"
proof (induction ds arbitrary: a)
  case Nil
  then show ?case by simp
next
  case (Cons d ds)
  have "foldl (\<lambda>a c. 10 * a + (c - 48)) (10 * a + (d - 48)) ds
        = (10 * a + (d - 48)) * 10 ^ length ds + foldl (\<lambda>a c. 10 * a + (c - 48)) 0 ds"
    by (rule Cons.IH)
  moreover have "foldl (\<lambda>a c. 10 * a + (c - 48)) (d - 48) ds
        = (d - 48) * 10 ^ length ds + foldl (\<lambda>a c. 10 * a + (c - 48)) 0 ds"
    by (rule Cons.IH)
  ultimately show ?case by (simp add: algebra_simps)
qed

lemma digits_value_Nil: "digits_value [] = 0"
  by (simp add: digits_value_def)

lemma digits_value_Cons: "digits_value (c # ds) = (c - 48) * 10 ^ length ds + digits_value ds"
  unfolding digits_value_def using foldl_digits_acc [of "c - 48" ds] by simp

lemma digits_value_zero_iff:
  "list_all is_digit s \<Longrightarrow> digits_value s = 0 \<longleftrightarrow> list_all (\<lambda>c. c = 48) s"
  by (induction s) (auto simp: digits_value_Nil digits_value_Cons is_digit_def)

lemma digits_value_zeros: "list_all (\<lambda>c. c = 48) zs \<Longrightarrow> digits_value (zs @ t) = digits_value t"
  by (induction zs) (auto simp: digits_value_Cons)

lemma leading_zeros_all: "length (takeWhile P s) = length s \<longleftrightarrow> list_all P s"
proof
  assume "length (takeWhile P s) = length s"
  then have "takeWhile P s = s"
    by (metis takeWhile_eq_take take_all order_refl)
  then show "list_all P s"
    by (metis list_all_iff set_takeWhileD)
next
  assume "list_all P s"
  then have "\<forall>x\<in>set s. P x"
    by (simp add: list_all_iff)
  then have "takeWhile P s = s"
    by (rule takeWhile_eq_all_conv [THEN iffD2])
  then show "length (takeWhile P s) = length s"
    by (rule arg_cong)
qed

lemma digits_value_lower:
  assumes "list_all is_digit s" and "\<not> list_all (\<lambda>c. c = 48) s"
  shows "10 ^ (length s - length (takeWhile (\<lambda>c. c = 48) s) - 1) \<le> digits_value s"
proof -
  let ?zs = "takeWhile (\<lambda>c. c = 48) s"
  let ?t = "dropWhile (\<lambda>c. c = 48) s"
  have s: "s = ?zs @ ?t" by simp
  have zs: "list_all (\<lambda>c. c = 48) ?zs"
    by (simp add: list_all_iff) (metis set_takeWhileD)
  have "?t \<noteq> []" using assms(2) by (simp add: list_all_iff)
  then obtain c r where t: "?t = c # r" by (cases ?t) auto
  have "c \<noteq> 48" using t hd_dropWhile [of "\<lambda>c. c = 48" s] by auto
  moreover have "is_digit c"
  proof -
    have "c \<in> set s" using s t by (metis in_set_conv_decomp)
    then show ?thesis using assms(1) by (simp add: list_all_iff)
  qed
  ultimately have "1 \<le> c - 48" unfolding is_digit_def by arith
  then have "1 * 10 ^ length r \<le> (c - 48) * 10 ^ length r"
    by (rule mult_le_mono1)
  then have "10 ^ length r \<le> (c - 48) * 10 ^ length r"
    by (simp only: mult_1)
  then have "10 ^ length r \<le> digits_value ?t"
    unfolding t digits_value_Cons by (rule trans_le_add1)
  moreover have "digits_value s = digits_value ?t"
    using digits_value_zeros [OF zs, of ?t] by simp
  moreover have "length s - length ?zs - 1 = length r"
    using arg_cong [OF s, of length] t by simp
  ultimately show ?thesis by simp
qed

lemma isNumeric_all_digits:
  assumes "all_digits s"
  shows "isNumeric s = Some \<lparr>negative = False, int_digits = s, frac_digits = [], exponent = 0\<rparr>"
proof -
  obtain c r where s: "s = c # r" using assms by (cases s) (auto simp: all_digits_def)
  have c: "c \<noteq> 45" using assms s by (auto simp: all_digits_def is_digit_def)
  have tw: "takeWhile is_digit s = s" and dw: "dropWhile is_digit s = []"
    using assms by (auto simp: all_digits_def list_all_iff)
  show ?thesis
    unfolding isNumeric_def using c tw dw
    by (simp add: s parse_exponent_def)
qed

lemma BigNumber_all_digits:
  assumes "all_digits s"
  shows "BigNumber pn s =
     (if digits_value s = 0 then BN_Finite 0
      else if int (length s) - int (length (takeWhile (\<lambda>c. c = 48) s)) - 1 > MAX_EXP then BN_Infinity
      else BN_Finite (of_nat (digits_value s)))"
proof -
  have d: "list_all is_digit s" using assms by (simp add: all_digits_def)
  show ?thesis
    unfolding BigNumber_def isNumeric_all_digits [OF assms]
    using digits_value_zero_iff [OF d] leading_zeros_all [of "\<lambda>c. c = 48" s]
      length_takeWhile_le [of "\<lambda>c. c = 48" s]
    by (auto simp add: numeric_value_def pow10_def Let_def MIN_EXP_def)
qed

lemma all_digits_plain: "all_digits s \<Longrightarrow> s \<noteq> [] \<and> 46 \<notin> set s"
  by (auto simp: all_digits_def list_all_iff is_digit_def)

lemma isLessThanOrEqualTo_cases:
  "isLessThanOrEqualTo x n \<longleftrightarrow> x = BN_NegInfinity \<or> (\<exists>r. x = BN_Finite r \<and> r \<le> of_int n)"
  by (cases x) (auto simp: isLessThanOrEqualTo_def)

lemma isLessThan_cases:
  "isLessThan x n \<longleftrightarrow> x = BN_NegInfinity \<or> (\<exists>r. x = BN_Finite r \<and> r < of_int n)"
  by (cases x) (auto simp: isLessThan_def)

lemma isGreaterThan_cases:
  "isGreaterThan x n \<longleftrightarrow> x = BN_Infinity \<or> (\<exists>r. x = BN_Finite r \<and> r > of_int n)"
  by (cases x) (auto simp: isGreaterThan_def)

lemma isInteger_cases: "isInteger x \<longleftrightarrow> (\<exists>n. x = BN_Finite (of_int n))"
  by (cases x) (auto simp: isInteger_def)

lemma BigNumber_digits_pos:
  assumes "all_digits s" and "0 < digits_value s"
  shows "BigNumber pn s = BN_Infinity \<or> BigNumber pn s = BN_Finite (of_nat (digits_value s))"
  using assms by (simp add: BigNumber_all_digits)

lemma BigNumber_digits_short:
  assumes "all_digits s" and "length s \<le> 10000000"
  shows "BigNumber pn s = BN_Finite (of_nat (digits_value s))"
  using assms by (simp add: BigNumber_all_digits MAX_EXP_def)

lemma BigNumber_digits_small:
  assumes "all_digits s" and "digits_value s < 1000"
  shows "BigNumber pn s = BN_Finite (of_nat (digits_value s))"
proof (cases "digits_value s = 0")
  case True
  then show ?thesis using assms(1) by (simp add: BigNumber_all_digits)
next
  case False
  have d: "list_all is_digit s" using assms(1) by (simp add: all_digits_def)
  have nz: "\<not> list_all (\<lambda>c. c = 48) s"
    using False digits_value_zero_iff [OF d] by simp
  let ?k = "length s - length (takeWhile (\<lambda>c. c = 48) s) - 1"
  have "(10::nat) ^ ?k \<le> digits_value s"
    using digits_value_lower [OF d nz] .
  also have "digits_value s < 10 ^ 3"
    using assms(2) by simp
  finally have "(10::nat) ^ ?k < 10 ^ 3" .
  then have "?k < 3"
    by (rule power_less_imp_less_exp [rotated]) simp
  then have "\<not> int (length s) - int (length (takeWhile (\<lambda>c. c = 48) s)) - 1 > MAX_EXP"
    by (simp add: MAX_EXP_def)
  then show ?thesis using assms(1) False by (simp add: BigNumber_all_digits)
qed




lemma amount_nonpos:
  assumes "s \<noteq> []" and "46 \<notin> set s" and "isLessThanOrEqualTo (BigNumber pn s) 0"
  shows "validateAmountInput pn s st
         = st\<lparr>amountError := ''Amount must be greater than 0'', amountInput := js ''0''\<rparr>"
proof -
  have "BigNumber pn s \<noteq> BN_NaN"
    using assms(3) by (auto simp: isLessThanOrEqualTo_cases)
  then show ?thesis using assms
    by (simp add: validateAmountInput_def truthy_def indexOf_found isNaN_def)
qed

lemma amount_ok:
  assumes "s \<noteq> []" and "46 \<notin> set s" and "BigNumber pn s \<noteq> BN_NaN"
    and "\<not> isLessThanOrEqualTo (BigNumber pn s) 0"
  shows "validateAmountInput pn s st = st\<lparr>amountError := [], amountInput := s\<rparr>"
  using assms by (simp add: validateAmountInput_def truthy_def indexOf_found isNaN_def)

lemma amount_digits_ok:
  assumes "all_digits s" and "0 < digits_value s"
  shows "validateAmountInput pn s st = st\<lparr>amountError := [], amountInput := s\<rparr>"
proof (rule amount_ok)
  show "s \<noteq> []" and "46 \<notin> set s" using all_digits_plain [OF assms(1)] by simp_all
  show "BigNumber pn s \<noteq> BN_NaN"
    using BigNumber_digits_pos [OF assms, of pn] by auto
  show "\<not> isLessThanOrEqualTo (BigNumber pn s) 0"
    using BigNumber_digits_pos [OF assms, of pn] assms(2)
    by (auto simp: isLessThanOrEqualTo_cases)
qed

lemma amount_error_coerces:
  "amountError (validateAmountInput pn s st) \<noteq> []
   \<Longrightarrow> amountInput (validateAmountInput pn s st) = js ''0''"
  by (simp add: validateAmountInput_def Let_def split: if_splits)

lemma amount_no_error_keeps:
  "amountError (validateAmountInput pn s st) = []
   \<Longrightarrow> amountInput (validateAmountInput pn s st) = s"
  by (simp add: validateAmountInput_def Let_def split: if_splits)

section \<open>Validation of the amount\<close>



lemma js_0_digits: "all_digits (js ''0'') \<and> digits_value (js ''0'') = 0"
  by (simp add: js_def all_digits_def is_digit_def digits_value_def)

lemma BigNumber_0: "BigNumber pn (js ''0'') = BN_Finite 0"
  using js_0_digits by (simp add: BigNumber_all_digits)


lemma depth_required:
  "validateDepthInput pn [] st = st\<lparr>depthError := ''Required field'', depthInput := js ''0''\<rparr>"
  by (simp add: validateDepthInput_def truthy_def)

lemma depth_not_integer:
  assumes "s \<noteq> []" and "\<not> isInteger (BigNumber pn s)"
  shows "validateDepthInput pn s st
         = st\<lparr>depthError := ''Depth must be an integer'', depthInput := js ''0''\<rparr>"
  using assms by (simp add: validateDepthInput_def truthy_def)

lemma depth_low:
  assumes "s \<noteq> []" and "BigNumber pn s = BN_Finite (of_int n)" and "n < 17"
  shows "validateDepthInput pn s st
         = st\<lparr>depthError := ''Minimal depth is 17'', depthInput := js ''0''\<rparr>"
proof -
  have "isInteger (BigNumber pn s)" using assms(2) by (auto simp: isInteger_cases)
  moreover have "isLessThan (BigNumber pn s) 17" using assms(2,3) by (simp add: isLessThan_cases)
  ultimately show ?thesis using assms(1)
    by (simp add: validateDepthInput_def truthy_def)
qed

lemma depth_high:
  assumes "s \<noteq> []" and "BigNumber pn s = BN_Finite (of_int n)" and "255 < n"
  shows "validateDepthInput pn s st
         = st\<lparr>depthError := ''Depth has to be at most 255'', depthInput := js ''0''\<rparr>"
proof -
  have "isInteger (BigNumber pn s)" using assms(2) by (auto simp: isInteger_cases)
  moreover have "\<not> isLessThan (BigNumber pn s) 17"
    using assms(2,3) by (simp add: isLessThan_cases)
  moreover have "isGreaterThan (BigNumber pn s) 255"
    using assms(2,3) by (simp add: isGreaterThan_cases)
  ultimately show ?thesis using assms(1)
    by (simp add: validateDepthInput_def truthy_def)
qed

lemma depth_ok:
  assumes "s \<noteq> []" and "BigNumber pn s = BN_Finite (of_int n)" and "17 \<le> n" and "n \<le> 255"
  shows "validateDepthInput pn s st = st\<lparr>depthError := [], depthInput := s\<rparr>"
proof -
  have "isInteger (BigNumber pn s)" using assms(2) by (auto simp: isInteger_cases)
  moreover have "\<not> isLessThan (BigNumber pn s) 17"
    using assms(2,3) by (simp add: isLessThan_cases)
  moreover have "\<not> isGreaterThan (BigNumber pn s) 255"
    using assms(2,4) by (simp add: isGreaterThan_cases)
  ultimately show ?thesis using assms(1)
    by (simp add: validateDepthInput_def truthy_def)
qed

lemma depth_error_coerces:
  "depthError (validateDepthInput pn s st) \<noteq> []
   \<Longrightarrow> depthInput (validateDepthInput pn s st) = js ''0''"
  by (simp add: validateDepthInput_def Let_def split: if_splits)

lemma depth_no_error_keeps:
  "depthError (validateDepthInput pn s st) = []
   \<Longrightarrow> depthInput (validateDepthInput pn s st) = s"
  by (simp add: validateDepthInput_def Let_def split: if_splits)

section \<open>Validation of the depth\<close>

text \<open>
  C5. Depth validation, for every text: the empty text gets "Required field"; a text
  whose value is not an integer gets "Depth must be an integer"; an integer below 17
  (such as "16") gets "Minimal depth is 17"; an integer above 255 (such as "256")
  gets "Depth has to be at most 255". Whenever an error is set the stored depth is
  "0". An integer from 17 to 255 (such as "20") clears the error and the text is
  stored as typed.
\<close>

theorem validateDepthInput_cases:
  "(s = [] \<longrightarrow> depthError (validateDepthInput pn s st) = ''Required field'')
   \<and> (s \<noteq> [] \<and> (\<forall>k. BigNumber pn s \<noteq> BN_Finite (of_int k))
        \<longrightarrow> depthError (validateDepthInput pn s st) = ''Depth must be an integer'')
   \<and> (s \<noteq> [] \<and> BigNumber pn s = BN_Finite (of_int n) \<and> n < 17
        \<longrightarrow> depthError (validateDepthInput pn s st) = ''Minimal depth is 17'')
   \<and> (s \<noteq> [] \<and> BigNumber pn s = BN_Finite (of_int n) \<and> 255 < n
        \<longrightarrow> depthError (validateDepthInput pn s st) = ''Depth has to be at most 255'')
   \<and> (depthError (validateDepthInput pn s st) \<noteq> []
        \<longrightarrow> depthInput (validateDepthInput pn s st) = js ''0'')
   \<and> (s \<noteq> [] \<and> BigNumber pn s = BN_Finite (of_int n) \<and> 17 \<le> n \<and> n \<le> 255
        \<longrightarrow> depthError (validateDepthInput pn s st) = [] \<and> depthInput (validateDepthInput pn s st) = s)
   \<and> (all_digits s \<and> digits_value s < 17
        \<longrightarrow> depthError (validateDepthInput pn s st) = ''Minimal depth is 17'')
   \<and> (all_digits s \<and> 255 < digits_value s \<and> length s \<le> 10000000
        \<longrightarrow> depthError (validateDepthInput pn s st) = ''Depth has to be at most 255'')
   \<and> (all_digits s \<and> 17 \<le> digits_value s \<and> digits_value s \<le> 255
        \<longrightarrow> depthError (validateDepthInput pn s st) = [] \<and> depthInput (validateDepthInput pn s st) = s)"
proof (intro conjI impI)
  assume "s = []"
  then show "depthError (validateDepthInput pn s st) = ''Required field''"
    by (simp add: depth_required)
next
  assume "s \<noteq> [] \<and> (\<forall>k. BigNumber pn s \<noteq> BN_Finite (of_int k))"
  then show "depthError (validateDepthInput pn s st) = ''Depth must be an integer''"
    by (simp add: depth_not_integer isInteger_cases)
next
  assume "s \<noteq> [] \<and> BigNumber pn s = BN_Finite (of_int n) \<and> n < 17"
  then show "depthError (validateDepthInput pn s st) = ''Minimal depth is 17''"
    by (simp add: depth_low [of s pn n])
next
  assume "s \<noteq> [] \<and> BigNumber pn s = BN_Finite (of_int n) \<and> 255 < n"
  then show "depthError (validateDepthInput pn s st) = ''Depth has to be at most 255''"
    by (simp add: depth_high [of s pn n])
next
  assume "depthError (validateDepthInput pn s st) \<noteq> []"
  then show "depthInput (validateDepthInput pn s st) = js ''0''"
    by (rule depth_error_coerces)
next
  assume a: "s \<noteq> [] \<and> BigNumber pn s = BN_Finite (of_int n) \<and> 17 \<le> n \<and> n \<le> 255"
  then show "depthError (validateDepthInput pn s st) = []"
    by (simp add: depth_ok [of s pn n])
  from a show "depthInput (validateDepthInput pn s st) = s"
    by (simp add: depth_ok [of s pn n])
next
  assume a: "all_digits s \<and> digits_value s < 17"
  then have "BigNumber pn s = BN_Finite (of_int (int (digits_value s)))"
    by (simp add: BigNumber_digits_small)
  then show "depthError (validateDepthInput pn s st) = ''Minimal depth is 17''"
    using a all_digits_plain [of s] by (simp add: depth_low [of s pn "int (digits_value s)"])
next
  assume a: "all_digits s \<and> 255 < digits_value s \<and> length s \<le> 10000000"
  then have "BigNumber pn s = BN_Finite (of_int (int (digits_value s)))"
    by (simp add: BigNumber_digits_short)
  then show "depthError (validateDepthInput pn s st) = ''Depth has to be at most 255''"
    using a all_digits_plain [of s] by (simp add: depth_high [of s pn "int (digits_value s)"])
next
  assume a: "all_digits s \<and> 17 \<le> digits_value s \<and> digits_value s \<le> 255"
  then have b: "BigNumber pn s = BN_Finite (of_int (int (digits_value s)))"
    by (simp add: BigNumber_digits_small)
  then show "depthError (validateDepthInput pn s st) = []"
    using a all_digits_plain [of s] by (simp add: depth_ok [of s pn "int (digits_value s)"])
  from a b show "depthInput (validateDepthInput pn s st) = s"
    using all_digits_plain [of s] by (simp add: depth_ok [of s pn "int (digits_value s)"])
qed

theorem validateDepthInput_cases_witness:
  "depthError (validateDepthInput (\<lambda>s. BN_NaN) [] initial_state) = ''Required field''
   \<and> depthError (validateDepthInput (\<lambda>s. BN_NaN) (js ''abc'') initial_state)
       = ''Depth must be an integer''
   \<and> depthError (validateDepthInput (\<lambda>s. BN_NaN) (js ''16'') initial_state)
       = ''Minimal depth is 17''
   \<and> depthInput (validateDepthInput (\<lambda>s. BN_NaN) (js ''16'') initial_state) = js ''0''
   \<and> depthError (validateDepthInput (\<lambda>s. BN_NaN) (js ''256'') initial_state)
       = ''Depth has to be at most 255''
   \<and> depthError (validateDepthInput (\<lambda>s. BN_NaN) (js ''20'') initial_state) = []
   \<and> depthInput (validateDepthInput (\<lambda>s. BN_NaN) (js ''20'') initial_state) = js ''20''"
proof -
  have abc: "\<forall>k. BigNumber (\<lambda>s. BN_NaN) (js ''abc'') \<noteq> BN_Finite (of_int k)"
    by (simp add: BigNumber_def isNumeric_def js_def is_digit_def)
  have d16: "all_digits (js ''16'') \<and> digits_value (js ''16'') = 16"
    and d256: "all_digits (js ''256'') \<and> digits_value (js ''256'') = 256 \<and> length (js ''256'') = 3"
    and d20: "all_digits (js ''20'') \<and> digits_value (js ''20'') = 20"
    by (simp_all add: js_def all_digits_def is_digit_def digits_value_def)
  show ?thesis
    using validateDepthInput_cases [of "[]" "\<lambda>s. BN_NaN" initial_state]
      validateDepthInput_cases [of "js ''abc''" "\<lambda>s. BN_NaN" initial_state]
      validateDepthInput_cases [of "js ''16''" "\<lambda>s. BN_NaN" initial_state]
      validateDepthInput_cases [of "js ''256''" "\<lambda>s. BN_NaN" initial_state]
      validateDepthInput_cases [of "js ''20''" "\<lambda>s. BN_NaN" initial_state]
      abc d16 d256 d20
    by (simp add: js_def)
qed

lemma js_0_nonempty: "js ''0'' \<noteq> []"
  by (simp add: js_def)

lemma amount_0_rejected: "amountError (validateAmountInput pn (js ''0'') st) \<noteq> []"
proof -
  have "isLessThanOrEqualTo (BigNumber pn (js ''0'')) 0"
    by (simp add: BigNumber_0 isLessThanOrEqualTo_cases)
  then show ?thesis
    using js_0_digits all_digits_plain [of "js ''0''"] by (simp add: amount_nonpos)
qed

lemma depth_0_rejected: "depthError (validateDepthInput pn (js ''0'') st) \<noteq> []"
proof -
  have "BigNumber pn (js ''0'') = BN_Finite (of_int 0)"
    by (simp add: BigNumber_0)
  then show ?thesis
    using js_0_nonempty by (simp add: depth_low [of "js ''0''" pn 0])
qed

lemma amount_stored_nonempty: "amountInput (validateAmountInput pn s st) \<noteq> []"
  using js_0_nonempty
  by (simp add: validateAmountInput_def truthy_def Let_def)

lemma depth_stored_nonempty: "depthInput (validateDepthInput pn s st) \<noteq> []"
  using js_0_nonempty
  by (simp add: validateDepthInput_def truthy_def Let_def)

lemma amount_stored_zero_iff:
  "amountInput (validateAmountInput pn s st) = js ''0''
   \<longleftrightarrow> amountError (validateAmountInput pn s st) \<noteq> []"
proof
  assume z: "amountInput (validateAmountInput pn s st) = js ''0''"
  show "amountError (validateAmountInput pn s st) \<noteq> []"
  proof
    assume e: "amountError (validateAmountInput pn s st) = []"
    then have "s = js ''0''" using amount_no_error_keeps [OF e] z by simp
    then show False using e amount_0_rejected [of pn st] by simp
  qed
next
  assume "amountError (validateAmountInput pn s st) \<noteq> []"
  then show "amountInput (validateAmountInput pn s st) = js ''0''"
    by (rule amount_error_coerces)
qed

lemma depth_stored_zero_iff:
  "depthInput (validateDepthInput pn s st) = js ''0''
   \<longleftrightarrow> depthError (validateDepthInput pn s st) \<noteq> []"
proof
  assume z: "depthInput (validateDepthInput pn s st) = js ''0''"
  show "depthError (validateDepthInput pn s st) \<noteq> []"
  proof
    assume e: "depthError (validateDepthInput pn s st) = []"
    then have "s = js ''0''" using depth_no_error_keeps [OF e] z by simp
    then show False using e depth_0_rejected [of pn st] by simp
  qed
next
  assume "depthError (validateDepthInput pn s st) \<noteq> []"
  then show "depthInput (validateDepthInput pn s st) = js ''0''"
    by (rule depth_error_coerces)
qed

lemma amount_stored_literal_iff:
  "amountInput (validateAmountInput pn s st) = s
   \<longleftrightarrow> amountError (validateAmountInput pn s st) = [] \<or> s = js ''0''"
  using amount_stored_zero_iff [of pn s st] amount_no_error_keeps [of pn s st]
    amount_error_coerces [of pn s st]
  by auto

lemma depth_stored_literal_iff:
  "depthInput (validateDepthInput pn s st) = s
   \<longleftrightarrow> depthError (validateDepthInput pn s st) = [] \<or> s = js ''0''"
  using depth_stored_zero_iff [of pn s st] depth_no_error_keeps [of pn s st]
    depth_error_coerces [of pn s st]
  by auto

lemma amount_frame_depth: "amountInput (validateDepthInput pn s st) = amountInput st"
  by (simp add: validateDepthInput_def Let_def)

lemma depth_frame_amount: "depthInput (validateAmountInput pn s st) = depthInput st"
  by (simp add: validateAmountInput_def Let_def)

lemma apply_edits_snoc: "apply_edits pn st (es @ [e]) = apply_edit pn (apply_edits pn st es) e"
  by (simp add: apply_edits_def)

lemma edited_amount_nonempty:
  "amountInput (apply_edits pn st es) = [] \<Longrightarrow> (\<forall>v. EditAmount v \<notin> set es)"
proof (induction es rule: rev_induct)
  case Nil
  then show ?case by simp
next
  case (snoc e es)
  show ?case
  proof (cases e)
    case (EditAmount v)
    then show ?thesis
      using snoc.prems amount_stored_nonempty [of pn v "apply_edits pn st es"]
      by (simp add: apply_edits_snoc apply_edit_def)
  next
    case (EditDepth v)
    then show ?thesis
      using snoc by (simp add: apply_edits_snoc apply_edit_def amount_frame_depth)
  next
    case (EditLabel v)
    then show ?thesis using snoc by (simp add: apply_edits_snoc apply_edit_def)
  next
    case (EditImmutable v)
    then show ?thesis using snoc by (simp add: apply_edits_snoc apply_edit_def)
  qed
qed

lemma edited_depth_nonempty:
  "depthInput (apply_edits pn st es) = [] \<Longrightarrow> (\<forall>v. EditDepth v \<notin> set es)"
proof (induction es rule: rev_induct)
  case Nil
  then show ?case by simp
next
  case (snoc e es)
  show ?case
  proof (cases e)
    case (EditDepth v)
    then show ?thesis
      using snoc.prems depth_stored_nonempty [of pn v "apply_edits pn st es"]
      by (simp add: apply_edits_snoc apply_edit_def)
  next
    case (EditAmount v)
    then show ?thesis
      using snoc by (simp add: apply_edits_snoc apply_edit_def depth_frame_amount)
  next
    case (EditLabel v)
    then show ?thesis using snoc by (simp add: apply_edits_snoc apply_edit_def)
  next
    case (EditImmutable v)
    then show ?thesis using snoc by (simp add: apply_edits_snoc apply_edit_def)
  qed
qed

section \<open>The stored input after an edit\<close>

text \<open>
  C10 (as amended). After every call of \<open>validateAmountInput\<close> or
  \<open>validateDepthInput\<close> the stored input is not empty; it is "0" exactly when the
  field's error is non-empty; and it is the typed text exactly when the error is
  empty or the typed text is itself "0". So, starting from the initial form, a stored
  input can be empty only if its field was never edited.
\<close>

theorem stored_input_after_validation:
  "amountInput (validateAmountInput pn s st) \<noteq> []
   \<and> (amountInput (validateAmountInput pn s st) = js ''0''
        \<longleftrightarrow> amountError (validateAmountInput pn s st) \<noteq> [])
   \<and> (amountInput (validateAmountInput pn s st) = s
        \<longleftrightarrow> amountError (validateAmountInput pn s st) = [] \<or> s = js ''0'')
   \<and> depthInput (validateDepthInput pn s st) \<noteq> []
   \<and> (depthInput (validateDepthInput pn s st) = js ''0''
        \<longleftrightarrow> depthError (validateDepthInput pn s st) \<noteq> [])
   \<and> (depthInput (validateDepthInput pn s st) = s
        \<longleftrightarrow> depthError (validateDepthInput pn s st) = [] \<or> s = js ''0'')
   \<and> (amountInput (apply_edits pn initial_state es) = [] \<longrightarrow> (\<forall>v. EditAmount v \<notin> set es))
   \<and> (depthInput (apply_edits pn initial_state es) = [] \<longrightarrow> (\<forall>v. EditDepth v \<notin> set es))"
  using amount_stored_nonempty [of pn s st] amount_stored_zero_iff [of pn s st]
    amount_stored_literal_iff [of pn s st] depth_stored_nonempty [of pn s st]
    depth_stored_zero_iff [of pn s st] depth_stored_literal_iff [of pn s st]
    edited_amount_nonempty [of pn initial_state es] edited_depth_nonempty [of pn initial_state es]
  by blast

theorem stored_input_after_validation_witness:
  "amountInput (validateAmountInput (\<lambda>s. BN_NaN) (js ''100'') initial_state) = js ''100''
   \<and> amountError (validateAmountInput (\<lambda>s. BN_NaN) (js ''100'') initial_state) = []
   \<and> amountInput (validateAmountInput (\<lambda>s. BN_NaN) (js ''0'') initial_state) = js ''0''
   \<and> amountError (validateAmountInput (\<lambda>s. BN_NaN) (js ''0'') initial_state) \<noteq> []
   \<and> amountInput (apply_edits (\<lambda>s. BN_NaN) initial_state [EditDepth (js ''20'')]) = []
   \<and> (\<forall>v. EditAmount v \<notin> set [EditDepth (js ''20'')])
   \<and> depthInput (apply_edits (\<lambda>s. BN_NaN) initial_state [EditDepth (js ''20'')]) = js ''20''"
proof -
  have d100: "all_digits (js ''100'') \<and> 0 < digits_value (js ''100'')"
    by (simp add: js_def all_digits_def is_digit_def digits_value_def)
  have d20: "all_digits (js ''20'') \<and> digits_value (js ''20'') = 20"
    by (simp add: js_def all_digits_def is_digit_def digits_value_def)
  have a: "validateAmountInput (\<lambda>s. BN_NaN) (js ''100'') initial_state
           = initial_state\<lparr>amountError := [], amountInput := js ''100''\<rparr>"
    using d100 by (simp add: amount_digits_ok)
  have "BigNumber (\<lambda>s. BN_NaN) (js ''20'') = BN_Finite (of_int 20)"
    using d20 by (simp add: BigNumber_digits_small)
  then have d: "validateDepthInput (\<lambda>s. BN_NaN) (js ''20'') initial_state
           = initial_state\<lparr>depthError := [], depthInput := js ''20''\<rparr>"
    using all_digits_plain [of "js ''20''"] d20 by (simp add: depth_ok [of _ _ 20])
  have c1: "amountInput (validateAmountInput (\<lambda>s. BN_NaN) (js ''100'') initial_state) = js ''100''"
    and c2: "amountError (validateAmountInput (\<lambda>s. BN_NaN) (js ''100'') initial_state) = []"
    using a by simp_all
  have c3: "amountInput (validateAmountInput (\<lambda>s. BN_NaN) (js ''0'') initial_state) = js ''0''"
    using stored_input_after_validation [of "\<lambda>s. BN_NaN" "js ''0''" initial_state "[]"]
    by blast
  have c4: "amountError (validateAmountInput (\<lambda>s. BN_NaN) (js ''0'') initial_state) \<noteq> []"
    using stored_input_after_validation [of "\<lambda>s. BN_NaN" "js ''0''" initial_state "[]"]
    by blast
  have c5: "amountInput (apply_edits (\<lambda>s. BN_NaN) initial_state [EditDepth (js ''20'')]) = []"
    by (simp add: apply_edits_def apply_edit_def amount_frame_depth initial_state_def)
  have c6: "\<forall>v. EditAmount v \<notin> set [EditDepth (js ''20'')]"
    using stored_input_after_validation
      [of "\<lambda>s. BN_NaN" "js ''0''" initial_state "[EditDepth (js ''20'')]"] c5
    by blast
  have c7: "depthInput (apply_edits (\<lambda>s. BN_NaN) initial_state [EditDepth (js ''20'')]) = js ''20''"
    using d by (simp add: apply_edits_def apply_edit_def)
  show ?thesis
    using c1 c2 c3 c4 c5 c6 c7 by blast
qed

text \<open>
  The typed text "0" is rejected and stored as "0": the stored input equals the typed
  text although the error is set.
\<close>

theorem stored_input_literal_counterexample:
  "\<not> (\<forall>pn s st. amountInput (validateAmountInput pn s st) = s
                  \<longleftrightarrow> amountError (validateAmountInput pn s st) = [])"
proof
  assume a: "\<forall>pn s st. amountInput (validateAmountInput pn s st) = s
                  \<longleftrightarrow> amountError (validateAmountInput pn s st) = []"
  have e: "amountError (validateAmountInput (\<lambda>s. BN_NaN) (js ''0'') initial_state) \<noteq> []"
    by (rule amount_0_rejected)
  then have "amountInput (validateAmountInput (\<lambda>s. BN_NaN) (js ''0'') initial_state) = js ''0''"
    by (rule amount_error_coerces)
  with a e show False by blast
qed

lemma BigInt_100: "BigInt (js ''100'') = Some 100"
  by (simp add: BigInt_def js_def trim_def is_ws_def all_digits_def is_digit_def digits_value_def)

lemma bigint_toString_100: "bigint_toString 100 = ''100''"
  by (simp add: bigint_toString_def nat_toString.simps)

lemma parseInt_20: "parseInt (js ''20'') None = Num 20" "parseInt (js ''20'') (Some 10) = Num 20"
  by (simp_all add: parseInt_def js_def is_ws_def radix_digit_def radix_value_def)

lemma example_calls:
  "submit_calls example_env example_api example_form
   = ([CreatePostageBatch ''100'' (Num 20) (postageBatchOptions example_form),
       WaitUntilStampExists ''batch'', StampsRefresh, OnFinished], None)"
  by (simp add: submit_calls_def example_env_def example_api_def example_form_def
      BigInt_100 bigint_toString_100 parseInt_20)

section \<open>A successful purchase\<close>

text \<open>
  C1. In every run of submit with non-empty depth and amount, an API client and no
  exception: createPostageBatch is called once, with the decimal rendering of the
  amount read by BigInt and the depth read by parseInt; then waitUntilStampExists is
  called with the batch id that call returned; then the stamp list is refreshed once;
  then onFinished is called once; and the submitting flag is false at the end.
\<close>

theorem submit_success:
  assumes "depthInput st \<noteq> []" and "amountInput st \<noteq> []"
    and "beeDebugApi e = Some api"
    and "snd (submit_calls e api st) = None"
  shows "\<exists>amount batchId.
           BigInt (amountInput st) = Some amount
           \<and> createPostageBatch api (bigint_toString amount) (parseInt (depthInput st) None)
                (postageBatchOptions st) = Inr batchId
           \<and> submit e st =
               (st\<lparr>submitting := False\<rparr>,
                [SetSubmitting True,
                 CreatePostageBatch (bigint_toString amount) (parseInt (depthInput st) None)
                   (postageBatchOptions st),
                 WaitUntilStampExists batchId, StampsRefresh, OnFinished,
                 SetSubmitting False])"
proof -
  from assms(4) obtain amount where a: "BigInt (amountInput st) = Some amount"
    by (cases "BigInt (amountInput st)") (auto simp: submit_calls_def)
  let ?A = "bigint_toString amount" and ?D = "parseInt (depthInput st) None"
  let ?O = "postageBatchOptions st"
  from assms(4) a obtain batchId where b: "createPostageBatch api ?A ?D ?O = Inr batchId"
    by (cases "createPostageBatch api ?A ?D ?O") (auto simp: submit_calls_def)
  from assms(4) a b have w: "waitUntilStampExists e batchId api = Inr ()"
    by (cases "waitUntilStampExists e batchId api") (auto simp: submit_calls_def)
  from assms(4) a b w have r: "refresh e = Inr ()"
    by (cases "refresh e") (auto simp: submit_calls_def)
  from assms(4) a b w r have f: "onFinished e = Inr ()"
    by (cases "onFinished e") (auto simp: submit_calls_def)
  have "submit_calls e api st
        = ([CreatePostageBatch ?A ?D ?O, WaitUntilStampExists batchId, StampsRefresh, OnFinished], None)"
    using a b w r f by (simp add: submit_calls_def)
  then have "submit e st =
      (st\<lparr>submitting := False\<rparr>,
       [SetSubmitting True, CreatePostageBatch ?A ?D ?O, WaitUntilStampExists batchId,
        StampsRefresh, OnFinished, SetSubmitting False])"
    using assms(1,2,3) by (simp add: submit_def truthy_def)
  with a b show ?thesis by blast
qed

theorem submit_success_witness:
  "submit example_env example_form =
     (example_form\<lparr>submitting := False\<rparr>,
      [SetSubmitting True,
       CreatePostageBatch ''100'' (Num 20)
         \<lparr>waitForUsable = False, label = None, immutableFlag = False\<rparr>,
       WaitUntilStampExists ''batch'', StampsRefresh, OnFinished, SetSubmitting False])"
proof -
  have 1: "depthInput example_form \<noteq> []" and 2: "amountInput example_form \<noteq> []"
    by (simp_all add: example_form_def js_def)
  have 3: "beeDebugApi example_env = Some example_api"
    by (simp add: example_env_def)
  have 4: "snd (submit_calls example_env example_api example_form) = None"
    by (simp add: example_calls)
  from submit_success [OF 1 2 3 4] obtain amount batchId where
    a: "BigInt (amountInput example_form) = Some amount"
    and b: "createPostageBatch example_api (bigint_toString amount)
              (parseInt (depthInput example_form) None) (postageBatchOptions example_form)
            = Inr batchId"
    and s: "submit example_env example_form =
       (example_form\<lparr>submitting := False\<rparr>,
        [SetSubmitting True,
         CreatePostageBatch (bigint_toString amount) (parseInt (depthInput example_form) None)
           (postageBatchOptions example_form),
         WaitUntilStampExists batchId, StampsRefresh, OnFinished, SetSubmitting False])"
    by blast
  from a have "amount = 100" by (simp add: example_form_def BigInt_100)
  moreover from b have "batchId = ''batch''" by (simp add: example_api_def)
  moreover have "parseInt (depthInput example_form) None = Num 20"
    by (simp add: example_form_def parseInt_20)
  moreover have "postageBatchOptions example_form
                 = \<lparr>waitForUsable = False, label = None, immutableFlag = False\<rparr>"
    by (simp add: postageBatchOptions_def example_form_def truthy_def)
  ultimately show ?thesis using s by (simp add: bigint_toString_100)
qed

section \<open>A failed purchase\<close>

text \<open>
  C2. If createPostageBatch or waitUntilStampExists throws, the exception is caught:
  it is logged and a notification "Error: " followed by its message is shown. The
  submitting flag is false at the end, the stamp list is not refreshed, onFinished is
  not called, and the form is as it was before the click, so it can be submitted
  again.
\<close>

theorem submit_failure:
  assumes "depthInput st \<noteq> []" and "amountInput st \<noteq> []"
    and "beeDebugApi e = Some api"
    and "BigInt (amountInput st) = Some amount"
  shows "(createPostageBatch api (bigint_toString amount) (parseInt (depthInput st) None)
            (postageBatchOptions st) = Inl err
          \<longrightarrow> submit e st =
                (st\<lparr>submitting := False\<rparr>,
                 [SetSubmitting True,
                  CreatePostageBatch (bigint_toString amount) (parseInt (depthInput st) None)
                    (postageBatchOptions st),
                  ConsoleError err, EnqueueSnackbar (''Error: '' @ message err) ''error'',
                  SetSubmitting False]))
         \<and> (createPostageBatch api (bigint_toString amount) (parseInt (depthInput st) None)
               (postageBatchOptions st) = Inr batchId
             \<and> waitUntilStampExists e batchId api = Inl err
             \<longrightarrow> submit e st =
                   (st\<lparr>submitting := False\<rparr>,
                    [SetSubmitting True,
                     CreatePostageBatch (bigint_toString amount) (parseInt (depthInput st) None)
                       (postageBatchOptions st),
                     WaitUntilStampExists batchId,
                     ConsoleError err, EnqueueSnackbar (''Error: '' @ message err) ''error'',
                     SetSubmitting False]))
         \<and> ((\<exists>x. createPostageBatch api (bigint_toString amount) (parseInt (depthInput st) None)
                    (postageBatchOptions st) = Inl x)
              \<or> (\<exists>b x. createPostageBatch api (bigint_toString amount)
                          (parseInt (depthInput st) None) (postageBatchOptions st) = Inr b
                        \<and> waitUntilStampExists e b api = Inl x)
             \<longrightarrow> StampsRefresh \<notin> set (snd (submit e st))
                 \<and> OnFinished \<notin> set (snd (submit e st))
                 \<and> \<not> submitting (fst (submit e st))
                 \<and> (submit_disabled (fst (submit e st))
                      \<longleftrightarrow> truthy (depthError st) \<or> truthy (amountError st)))"
proof -
  let ?A = "bigint_toString amount" and ?D = "parseInt (depthInput st) None"
  let ?O = "postageBatchOptions st"
  have c: "createPostageBatch api ?A ?D ?O = Inl x \<Longrightarrow> submit e st =
                (st\<lparr>submitting := False\<rparr>,
                 [SetSubmitting True, CreatePostageBatch ?A ?D ?O,
                  ConsoleError x, EnqueueSnackbar (''Error: '' @ message x) ''error'',
                  SetSubmitting False])" for x
    using assms by (simp add: submit_def submit_calls_def truthy_def)
  have w: "createPostageBatch api ?A ?D ?O = Inr b \<Longrightarrow> waitUntilStampExists e b api = Inl x
           \<Longrightarrow> submit e st =
                (st\<lparr>submitting := False\<rparr>,
                 [SetSubmitting True, CreatePostageBatch ?A ?D ?O, WaitUntilStampExists b,
                  ConsoleError x, EnqueueSnackbar (''Error: '' @ message x) ''error'',
                  SetSubmitting False])" for b x
    using assms by (simp add: submit_def submit_calls_def truthy_def)
  have d: "submit_disabled (st\<lparr>submitting := False\<rparr>)
           \<longleftrightarrow> truthy (depthError st) \<or> truthy (amountError st)"
    using assms(1,2) by (simp add: submit_disabled_def truthy_def)
  show ?thesis
  proof (intro conjI impI)
    assume "createPostageBatch api ?A ?D ?O = Inl err"
    then show "submit e st =
                (st\<lparr>submitting := False\<rparr>,
                 [SetSubmitting True, CreatePostageBatch ?A ?D ?O,
                  ConsoleError err, EnqueueSnackbar (''Error: '' @ message err) ''error'',
                  SetSubmitting False])"
      by (rule c)
  next
    assume "createPostageBatch api ?A ?D ?O = Inr batchId
            \<and> waitUntilStampExists e batchId api = Inl err"
    then show "submit e st =
                (st\<lparr>submitting := False\<rparr>,
                 [SetSubmitting True, CreatePostageBatch ?A ?D ?O, WaitUntilStampExists batchId,
                  ConsoleError err, EnqueueSnackbar (''Error: '' @ message err) ''error'',
                  SetSubmitting False])"
      by (simp add: w)
  next
    assume f: "(\<exists>x. createPostageBatch api ?A ?D ?O = Inl x)
              \<or> (\<exists>b x. createPostageBatch api ?A ?D ?O = Inr b \<and> waitUntilStampExists e b api = Inl x)"
    then show "StampsRefresh \<notin> set (snd (submit e st))"
      using c w by auto
    from f show "OnFinished \<notin> set (snd (submit e st))"
      using c w by auto
    from f show "\<not> submitting (fst (submit e st))"
      using c w by auto
    from f show "submit_disabled (fst (submit e st))
                 \<longleftrightarrow> truthy (depthError st) \<or> truthy (amountError st)"
      using c w d by auto
  qed
qed

lemma example_options:
  "postageBatchOptions example_form = \<lparr>waitForUsable = False, label = None, immutableFlag = False\<rparr>"
  by (simp add: postageBatchOptions_def example_form_def truthy_def)

theorem submit_failure_witness:
  "submit (example_env\<lparr>beeDebugApi :=
              Some (example_api\<lparr>createPostageBatch := (\<lambda>a d opts. Inl (Error ''boom''))\<rparr>)\<rparr>)
          example_form
     = (example_form\<lparr>submitting := False\<rparr>,
        [SetSubmitting True,
         CreatePostageBatch ''100'' (Num 20)
           \<lparr>waitForUsable = False, label = None, immutableFlag = False\<rparr>,
         ConsoleError (Error ''boom''), EnqueueSnackbar ''Error: boom'' ''error'',
         SetSubmitting False])
   \<and> submit (example_env\<lparr>waitUntilStampExists := (\<lambda>b a. Inl (Error ''timeout''))\<rparr>)
            example_form
     = (example_form\<lparr>submitting := False\<rparr>,
        [SetSubmitting True,
         CreatePostageBatch ''100'' (Num 20)
           \<lparr>waitForUsable = False, label = None, immutableFlag = False\<rparr>,
         WaitUntilStampExists ''batch'',
         ConsoleError (Error ''timeout''), EnqueueSnackbar ''Error: timeout'' ''error'',
         SetSubmitting False])
   \<and> StampsRefresh \<notin> set (snd (submit
         (example_env\<lparr>waitUntilStampExists := (\<lambda>b a. Inl (Error ''timeout''))\<rparr>) example_form))
   \<and> OnFinished \<notin> set (snd (submit
         (example_env\<lparr>waitUntilStampExists := (\<lambda>b a. Inl (Error ''timeout''))\<rparr>) example_form))
   \<and> \<not> submit_disabled (fst (submit
         (example_env\<lparr>waitUntilStampExists := (\<lambda>b a. Inl (Error ''timeout''))\<rparr>) example_form))"
proof -
  let ?api1 = "example_api\<lparr>createPostageBatch := (\<lambda>a d opts. Inl (Error ''boom''))\<rparr>"
  let ?e1 = "example_env\<lparr>beeDebugApi := Some ?api1\<rparr>"
  let ?e2 = "example_env\<lparr>waitUntilStampExists := (\<lambda>b a. Inl (Error ''timeout''))\<rparr>"
  have 1: "depthInput example_form \<noteq> []" and 2: "amountInput example_form \<noteq> []"
    by (simp_all add: example_form_def js_def)
  have 4: "BigInt (amountInput example_form) = Some 100"
    by (simp add: example_form_def BigInt_100)
  have d: "parseInt (depthInput example_form) None = Num 20"
    by (simp add: example_form_def parseInt_20)
  have 31: "beeDebugApi ?e1 = Some ?api1" by simp
  have 32: "beeDebugApi ?e2 = Some example_api" by (simp add: example_env_def)
  have c1: "createPostageBatch ?api1 (bigint_toString 100) (parseInt (depthInput example_form) None)
              (postageBatchOptions example_form) = Inl (Error ''boom'')"
    by simp
  have c2: "createPostageBatch example_api (bigint_toString 100)
              (parseInt (depthInput example_form) None) (postageBatchOptions example_form)
            = Inr ''batch''
            \<and> waitUntilStampExists ?e2 ''batch'' example_api = Inl (Error ''timeout'')"
    by (simp add: example_api_def)
  have noerr: "\<not> truthy (depthError example_form) \<and> \<not> truthy (amountError example_form)"
    by (simp add: example_form_def truthy_def)
  note f1 = submit_failure [OF 1 2 31 4, of "Error ''boom''" "''batch''"]
  note f2 = submit_failure [OF 1 2 32 4, of "Error ''timeout''" "''batch''"]
  have s1: "submit ?e1 example_form
     = (example_form\<lparr>submitting := False\<rparr>,
        [SetSubmitting True,
         CreatePostageBatch ''100'' (Num 20)
           \<lparr>waitForUsable = False, label = None, immutableFlag = False\<rparr>,
         ConsoleError (Error ''boom''), EnqueueSnackbar ''Error: boom'' ''error'',
         SetSubmitting False])"
    using f1 c1 by (simp add: d example_options bigint_toString_100)
  have s2: "submit ?e2 example_form
     = (example_form\<lparr>submitting := False\<rparr>,
        [SetSubmitting True,
         CreatePostageBatch ''100'' (Num 20)
           \<lparr>waitForUsable = False, label = None, immutableFlag = False\<rparr>,
         WaitUntilStampExists ''batch'',
         ConsoleError (Error ''timeout''), EnqueueSnackbar ''Error: timeout'' ''error'',
         SetSubmitting False])"
    using f2 c2 by (simp add: d example_options bigint_toString_100)
  have s3: "StampsRefresh \<notin> set (snd (submit ?e2 example_form))
            \<and> OnFinished \<notin> set (snd (submit ?e2 example_form))
            \<and> \<not> submit_disabled (fst (submit ?e2 example_form))"
    using f2 c2 noerr by blast
  show ?thesis using s1 s2 s3 by blast
qed





lemma js_20_digits: "all_digits (js ''20'') \<and> digits_value (js ''20'') = 20"
  by (simp add: js_def all_digits_def is_digit_def digits_value_def)


lemma radix_digit_10: "radix_digit 10 c = (if is_digit c then Some (c - 48) else None)"
  by (auto simp: radix_digit_def is_digit_def)

lemma radix_value_10:
  "list_all is_digit s \<Longrightarrow> radix_value 10 s = digits_value s"
  unfolding radix_value_def digits_value_def
  by (rule foldl_cong) (auto simp: radix_digit_10 list_all_iff)

lemma digit_not_ws: "is_digit c \<Longrightarrow> \<not> is_ws c \<and> c \<noteq> 43 \<and> c \<noteq> 45"
  by (auto simp: is_digit_def is_ws_def)

lemma parseInt_all_digits:
  assumes "all_digits s"
  shows "parseInt s (Some 10) = Num (int (digits_value s))"
proof -
  obtain c r where s: "s = c # r" using assms by (cases s) (auto simp: all_digits_def)
  have d: "list_all is_digit s" using assms by (simp add: all_digits_def)
  have c: "is_digit c" using d s by simp
  have tw: "takeWhile (\<lambda>c. radix_digit 10 c \<noteq> None) s = s"
    using d by (simp add: radix_digit_10 list_all_iff takeWhile_eq_all_conv)
  have dw: "dropWhile is_ws s = s"
    using digit_not_ws [OF c] by (simp add: s)
  have sg: "c \<noteq> 43 \<and> c \<noteq> 45" using digit_not_ws [OF c] by simp
  have "parseInt s (Some 10) = Num (int (radix_value 10 s))"
    unfolding parseInt_def dw using sg tw assms
    by (simp add: s all_digits_def)
  then show ?thesis by (simp add: radix_value_10 [OF d])
qed

lemma BigInt_all_digits:
  assumes "all_digits s"
  shows "BigInt s = Some (int (digits_value s))"
proof -
  obtain c r where s: "s = c # r" using assms by (cases s) (auto simp: all_digits_def)
  have d: "list_all is_digit s" using assms by (simp add: all_digits_def)
  have c: "is_digit c" using d s by simp
  obtain r' l where r: "rev s = l # r'" using s by (cases "rev s") auto
  have "l \<in> set s" using r by (metis list.set_intros(1) set_rev)
  then have l: "is_digit l" using d by (simp add: list_all_iff)
  have dw: "dropWhile is_ws s = s"
    using digit_not_ws [OF c] by (simp add: s)
  have "dropWhile is_ws (rev s) = rev s"
    unfolding r using digit_not_ws [OF l] by simp
  then have "trim s = s"
    unfolding trim_def dw by simp
  then show ?thesis
    using assms digit_not_ws [OF c] by (simp add: BigInt_def s)
qed


lemma depth_accept_iff:
  "depthError (validateDepthInput pn s st) = []
   \<longleftrightarrow> s \<noteq> [] \<and> (\<exists>k. 17 \<le> k \<and> k \<le> 255 \<and> BigNumber pn s = BN_Finite (of_int k))"
proof
  assume e: "depthError (validateDepthInput pn s st) = []"
  then have ne: "s \<noteq> []"
    by (auto simp: validateDepthInput_def truthy_def)
  from e ne have i: "isInteger (BigNumber pn s)"
    and l: "\<not> isLessThan (BigNumber pn s) 17" and g: "\<not> isGreaterThan (BigNumber pn s) 255"
    by (auto simp: validateDepthInput_def truthy_def Let_def split: if_splits)
  from i obtain k where k: "BigNumber pn s = BN_Finite (of_int k)"
    by (auto simp: isInteger_cases)
  from l k have "17 \<le> k" by (simp add: isLessThan_cases)
  moreover from g k have "k \<le> 255" by (simp add: isGreaterThan_cases)
  ultimately show "s \<noteq> [] \<and> (\<exists>k. 17 \<le> k \<and> k \<le> 255 \<and> BigNumber pn s = BN_Finite (of_int k))"
    using ne k by blast
next
  assume "s \<noteq> [] \<and> (\<exists>k. 17 \<le> k \<and> k \<le> 255 \<and> BigNumber pn s = BN_Finite (of_int k))"
  then obtain k where "s \<noteq> []" "17 \<le> k" "k \<le> 255" "BigNumber pn s = BN_Finite (of_int k)"
    by blast
  then show "depthError (validateDepthInput pn s st) = []"
    by (simp add: depth_ok [of s pn k])
qed

lemma getFileSize_out: "getFileSize u NaN = ''-''" "d < 17 \<or> 255 < d \<Longrightarrow> getFileSize u (Num d) = ''-''"
  by (auto simp: getFileSize_def global_isNaN_def num_lt_def num_gt_def)

lemma getFileSize_in:
  "17 \<le> d \<Longrightarrow> d \<le> 255
   \<Longrightarrow> getFileSize u (Num d) = ''~'' @ getHumanReadableFileSize u (convertDepthToBytes u (Num d))"
  by (simp add: getFileSize_def global_isNaN_def num_lt_def num_gt_def)

lemma file_size_display_error:
  "depthError st \<noteq> [] \<Longrightarrow> file_size_display u st = ''-''"
  by (simp add: file_size_display_def truthy_def)

lemma file_size_display_digits:
  assumes "all_digits s" and "17 \<le> digits_value s" and "digits_value s \<le> 255"
  shows "file_size_display u (validateDepthInput pn s st)
         = ''~'' @ getHumanReadableFileSize u (convertDepthToBytes u (Num (int (digits_value s))))"
proof -
  have "BigNumber pn s = BN_Finite (of_int (int (digits_value s)))"
    using assms by (simp add: BigNumber_digits_small)
  then have "validateDepthInput pn s st = st\<lparr>depthError := [], depthInput := s\<rparr>"
    using assms all_digits_plain [of s] by (simp add: depth_ok [of s pn "int (digits_value s)"])
  then show ?thesis
    using assms all_digits_plain [of s]
    by (simp add: file_size_display_def truthy_def parseInt_all_digits getFileSize_in)
qed

section \<open>The file size shown for a depth\<close>

text \<open>
  C8. For depths d1 \<le> d2, both from 17 to 255, the file size shown for d2 is at least
  the one shown for d1, in any order on renderings for which the depth-to-bytes
  conversion and the human-readable rendering are monotone. For a depth outside
  17..255, for \<^verbatim>\<open>NaN\<close>, and for every typed depth that is empty or whose value is
  not an integer from 17 to 255 (a non-numeric text among them), the display is "-".
\<close>

theorem file_size_display_monotone:
  "(17 \<le> d1 \<and> d1 \<le> d2 \<and> d2 \<le> 255
     \<and> (\<forall>a b. a \<le> b \<longrightarrow> leb (convertDepthToBytes u (Num a)) (convertDepthToBytes u (Num b)))
     \<and> (\<forall>x y. leb x y \<longrightarrow> le (getHumanReadableFileSize u x) (getHumanReadableFileSize u y))
     \<longrightarrow> (\<exists>r1 r2. getFileSize u (Num d1) = ''~'' @ r1 \<and> getFileSize u (Num d2) = ''~'' @ r2
                  \<and> le r1 r2))
   \<and> (d < 17 \<or> 255 < d \<longrightarrow> getFileSize u (Num d) = ''-'')
   \<and> getFileSize u NaN = ''-''
   \<and> (s = [] \<or> (\<forall>k. 17 \<le> k \<and> k \<le> 255 \<longrightarrow> BigNumber pn s \<noteq> BN_Finite (of_int k))
        \<longrightarrow> file_size_display u (validateDepthInput pn s st) = ''-'')
   \<and> (all_digits s \<and> 17 \<le> digits_value s \<and> digits_value s \<le> 255
        \<longrightarrow> file_size_display u (validateDepthInput pn s st)
            = ''~'' @ getHumanReadableFileSize u (convertDepthToBytes u (Num (int (digits_value s)))))
   \<and> (all_digits s1 \<and> all_digits s2 \<and> 17 \<le> digits_value s1
        \<and> digits_value s1 \<le> digits_value s2 \<and> digits_value s2 \<le> 255
        \<and> (\<forall>a b. a \<le> b \<longrightarrow> leb (convertDepthToBytes u (Num a)) (convertDepthToBytes u (Num b)))
        \<and> (\<forall>x y. leb x y \<longrightarrow> le (getHumanReadableFileSize u x) (getHumanReadableFileSize u y))
        \<longrightarrow> (\<exists>r1 r2. file_size_display u (validateDepthInput pn s1 st) = ''~'' @ r1
                     \<and> file_size_display u (validateDepthInput pn s2 st) = ''~'' @ r2
                     \<and> le r1 r2))"
proof (intro conjI impI)
  assume a: "17 \<le> d1 \<and> d1 \<le> d2 \<and> d2 \<le> 255
     \<and> (\<forall>a b. a \<le> b \<longrightarrow> leb (convertDepthToBytes u (Num a)) (convertDepthToBytes u (Num b)))
     \<and> (\<forall>x y. leb x y \<longrightarrow> le (getHumanReadableFileSize u x) (getHumanReadableFileSize u y))"
  let ?r = "\<lambda>d. getHumanReadableFileSize u (convertDepthToBytes u (Num d))"
  have "getFileSize u (Num d1) = ''~'' @ ?r d1" using a by (simp add: getFileSize_in)
  moreover have "getFileSize u (Num d2) = ''~'' @ ?r d2" using a by (simp add: getFileSize_in)
  moreover have "le (?r d1) (?r d2)" using a by blast
  ultimately show "\<exists>r1 r2. getFileSize u (Num d1) = ''~'' @ r1 \<and> getFileSize u (Num d2) = ''~'' @ r2
                  \<and> le r1 r2"
    by blast
next
  assume "d < 17 \<or> 255 < d"
  then show "getFileSize u (Num d) = ''-''" by (rule getFileSize_out)
next
  show "getFileSize u NaN = ''-''" by (rule getFileSize_out)
next
  assume "s = [] \<or> (\<forall>k. 17 \<le> k \<and> k \<le> 255 \<longrightarrow> BigNumber pn s \<noteq> BN_Finite (of_int k))"
  then have "depthError (validateDepthInput pn s st) \<noteq> []"
    by (auto simp: depth_accept_iff)
  then show "file_size_display u (validateDepthInput pn s st) = ''-''"
    by (rule file_size_display_error)
next
  assume a: "all_digits s \<and> 17 \<le> digits_value s \<and> digits_value s \<le> 255"
  then show "file_size_display u (validateDepthInput pn s st)
            = ''~'' @ getHumanReadableFileSize u (convertDepthToBytes u (Num (int (digits_value s))))"
    by (simp add: file_size_display_digits)
next
  assume a: "all_digits s1 \<and> all_digits s2 \<and> 17 \<le> digits_value s1
        \<and> digits_value s1 \<le> digits_value s2 \<and> digits_value s2 \<le> 255
        \<and> (\<forall>a b. a \<le> b \<longrightarrow> leb (convertDepthToBytes u (Num a)) (convertDepthToBytes u (Num b)))
        \<and> (\<forall>x y. leb x y \<longrightarrow> le (getHumanReadableFileSize u x) (getHumanReadableFileSize u y))"
  let ?r = "\<lambda>t. getHumanReadableFileSize u (convertDepthToBytes u (Num (int (digits_value t))))"
  have "file_size_display u (validateDepthInput pn s1 st) = ''~'' @ ?r s1"
    using a by (simp add: file_size_display_digits)
  moreover have "file_size_display u (validateDepthInput pn s2 st) = ''~'' @ ?r s2"
    using a by (simp add: file_size_display_digits)
  moreover have "int (digits_value s1) \<le> int (digits_value s2)"
    using a by simp
  then have "le (?r s1) (?r s2)"
    using a by blast
  ultimately show "\<exists>r1 r2. file_size_display u (validateDepthInput pn s1 st) = ''~'' @ r1
                     \<and> file_size_display u (validateDepthInput pn s2 st) = ''~'' @ r2
                     \<and> le r1 r2"
    by blast
qed

lemma example_sizes:
  "getHumanReadableFileSize example_utils (convertDepthToBytes example_utils (Num 20)) = ''small''"
  "getHumanReadableFileSize example_utils (convertDepthToBytes example_utils (Num 30)) = ''large''"
  by (simp_all add: example_utils_def)

theorem file_size_display_monotone_witness:
  "getFileSize example_utils (Num 20) = ''~small''
   \<and> getFileSize example_utils (Num 30) = ''~large''
   \<and> getFileSize example_utils (Num 16) = ''-''
   \<and> getFileSize example_utils (Num 256) = ''-''
   \<and> file_size_display example_utils (validateDepthInput (\<lambda>s. BN_NaN) (js ''abc'') initial_state) = ''-''
   \<and> file_size_display example_utils (validateDepthInput (\<lambda>s. BN_NaN) (js ''20'') initial_state)
       = ''~small''"
proof -
  let ?le = "\<lambda>x y. x = ''small'' \<or> y = ''large''"
  let ?leb = "\<lambda>x y::int. x \<le> y"
  have m1: "\<forall>a b. a \<le> b \<longrightarrow>
              ?leb (convertDepthToBytes example_utils (Num a)) (convertDepthToBytes example_utils (Num b))"
    by (simp add: example_utils_def nat_mono)
  have m2: "\<forall>x y. ?leb x y \<longrightarrow>
              ?le (getHumanReadableFileSize example_utils x) (getHumanReadableFileSize example_utils y)"
    by (simp add: example_utils_def)
  have abc: "\<forall>k. 17 \<le> k \<and> k \<le> 255 \<longrightarrow> BigNumber (\<lambda>s. BN_NaN) (js ''abc'') \<noteq> BN_Finite (of_int k)"
    by (simp add: BigNumber_def isNumeric_def js_def is_digit_def)
  have d20: "all_digits (js ''20'') \<and> 17 \<le> digits_value (js ''20'') \<and> digits_value (js ''20'') \<le> 255"
    and v20: "int (digits_value (js ''20'')) = 20"
    using js_20_digits by simp_all
  note t = file_size_display_monotone [where u = example_utils and pn = "\<lambda>s. BN_NaN"
      and st = initial_state and le = ?le and leb = ?leb
      and ?s1.0 = "js ''20''" and ?s2.0 = "js ''20''"]
  from t [of 20 30 16 "js ''abc''"] m1 m2
  obtain r1 r2 where r: "getFileSize example_utils (Num 20) = ''~'' @ r1"
      "getFileSize example_utils (Num 30) = ''~'' @ r2"
    by auto
  have g20: "getFileSize example_utils (Num 20) = ''~small''"
    and g30: "getFileSize example_utils (Num 30) = ''~large''"
    by (simp_all add: getFileSize_in example_sizes)
  have g16: "getFileSize example_utils (Num 16) = ''-''"
    using t [of 20 30 16 "js ''abc''"] by simp
  have g256: "getFileSize example_utils (Num 256) = ''-''"
    using t [of 20 30 256 "js ''abc''"] by simp
  have fabc: "file_size_display example_utils (validateDepthInput (\<lambda>s. BN_NaN) (js ''abc'') initial_state) = ''-''"
    using t [of 20 30 16 "js ''abc''"] abc by blast
  have f20: "file_size_display example_utils (validateDepthInput (\<lambda>s. BN_NaN) (js ''20'') initial_state)
       = ''~small''"
    using t [of 20 30 16 "js ''20''"] d20 by (simp add: v20 example_sizes)
  show ?thesis using g20 g30 g16 g256 fabc f20 by blast
qed

lemma price_text_not_placeholder: "x @ '' xBZZ'' \<noteq> ''-''"
  by (cases x) simp_all

lemma ttl_text_not_placeholder: "x @ '' (with price of '' @ y @ '' per block)'' \<noteq> ''-''"
  by (cases x) simp_all

lemma price_display_placeholder:
  "truthy (amountError st) \<or> truthy (depthError st) \<or> amountInput st = [] \<or> depthInput st = []
   \<Longrightarrow> price_display u st = Some ''-''"
  by (auto simp: price_display_def truthy_def)

lemma ttl_display_placeholder:
  "truthy (amountError st) \<or> amountInput st = [] \<Longrightarrow> ttl_display u cs st = ''-''"
  by (auto simp: ttl_display_def truthy_def)

lemma ttl_display_no_price:
  "cs = None \<or> (\<exists>c. cs = Some c \<and> currentPrice c = []) \<Longrightarrow> ttl_display u cs st = ''-''"
  by (auto simp: ttl_display_def getTtl_def truthy_def)

lemma ttl_display_digits:
  assumes "all_digits a" and "0 < digits_value a" and "currentPrice c \<noteq> []"
  shows "ttl_display u (Some c) (validateAmountInput pn a st)
         = secondsToTimeString u
             (convertAmountToSeconds u (Num (int (digits_value a)))
                (parseInt (currentPrice c) (Some 10)))
           @ '' (with price of '' @ toFixed u (parseInt (currentPrice c) (Some 10))
           @ '' per block)''"
  using assms all_digits_plain [OF assms(1)]
  by (simp add: amount_digits_ok ttl_display_def getTtl_def truthy_def parseInt_all_digits
      num_le_def Let_def)

lemma price_display_digits:
  assumes "all_digits a" and "0 < digits_value a"
    and "all_digits d" and "17 \<le> digits_value d" and "digits_value d \<le> 255"
  shows "price_display u (validateDepthInput pn d (validateAmountInput pn a st))
         = Some (toSignificantDigits u
                   (calculateStampPrice u (Num (int (digits_value d))) (int (digits_value a)))
                 @ '' xBZZ'')"
proof -
  have "BigNumber pn d = BN_Finite (of_int (int (digits_value d)))"
    using assms(3,5) by (simp add: BigNumber_digits_small)
  then have "validateDepthInput pn d (validateAmountInput pn a st)
        = st\<lparr>amountError := [], amountInput := a, depthError := [], depthInput := d\<rparr>"
    using assms all_digits_plain [OF assms(3)]
    by (simp add: amount_digits_ok depth_ok [of d pn "int (digits_value d)"])
  then show ?thesis
    using assms all_digits_plain [OF assms(1)] all_digits_plain [OF assms(3)]
    by (simp add: price_display_def truthy_def BigInt_all_digits parseInt_all_digits
        getPrice_def global_isNaN_def num_lt_def num_gt_def)
qed

section \<open>The price and the time to live shown\<close>

text \<open>
  C6 (as amended). The price display is "-" whenever an error is set or a stored input
  is empty. The TTL display is "-" whenever the amount's error is set or the stored
  amount is empty, and whenever no current price is available; it does not look at the
  depth. For an amount and a depth typed as decimal digits, the amount positive and
  the depth from 17 to 255, the price display is the significant digits of
  calculateStampPrice(depth, amount) followed by " xBZZ"; for such an amount and an
  available price the TTL display is the time string of
  convertAmountToSeconds(amount, pricePerBlock) followed by the price per block,
  whatever the depth field holds. Neither of these is "-".
\<close>

theorem price_and_ttl_display:
  "(truthy (amountError st) \<or> truthy (depthError st) \<or> amountInput st = [] \<or> depthInput st = []
      \<longrightarrow> price_display u st = Some ''-'')
   \<and> (truthy (amountError st) \<or> amountInput st = [] \<longrightarrow> ttl_display u cs st = ''-'')
   \<and> (cs = None \<or> (\<exists>c. cs = Some c \<and> currentPrice c = []) \<longrightarrow> ttl_display u cs st = ''-'')
   \<and> (all_digits a \<and> 0 < digits_value a \<and> all_digits d \<and> 17 \<le> digits_value d
        \<and> digits_value d \<le> 255
        \<longrightarrow> price_display u (validateDepthInput pn d (validateAmountInput pn a st))
              = Some (toSignificantDigits u
                        (calculateStampPrice u (Num (int (digits_value d))) (int (digits_value a)))
                      @ '' xBZZ'')
            \<and> price_display u (validateDepthInput pn d (validateAmountInput pn a st)) \<noteq> Some ''-'')
   \<and> (all_digits a \<and> 0 < digits_value a \<and> currentPrice c \<noteq> []
        \<longrightarrow> ttl_display u (Some c) (validateAmountInput pn a st)
              = secondsToTimeString u
                  (convertAmountToSeconds u (Num (int (digits_value a)))
                     (parseInt (currentPrice c) (Some 10)))
                @ '' (with price of '' @ toFixed u (parseInt (currentPrice c) (Some 10))
                @ '' per block)''
            \<and> ttl_display u (Some c) (validateAmountInput pn a st) \<noteq> ''-''
            \<and> ttl_display u (Some c) (validateDepthInput pn s (validateAmountInput pn a st))
              = ttl_display u (Some c) (validateAmountInput pn a st))
   \<and> ttl_display u cs (validateDepthInput pn s st) = ttl_display u cs st"
proof (intro conjI impI)
  assume "truthy (amountError st) \<or> truthy (depthError st) \<or> amountInput st = [] \<or> depthInput st = []"
  then show "price_display u st = Some ''-''" by (rule price_display_placeholder)
next
  assume "truthy (amountError st) \<or> amountInput st = []"
  then show "ttl_display u cs st = ''-''" by (rule ttl_display_placeholder)
next
  assume "cs = None \<or> (\<exists>c. cs = Some c \<and> currentPrice c = [])"
  then show "ttl_display u cs st = ''-''" by (rule ttl_display_no_price)
next
  assume a: "all_digits a \<and> 0 < digits_value a \<and> all_digits d \<and> 17 \<le> digits_value d
        \<and> digits_value d \<le> 255"
  then show p: "price_display u (validateDepthInput pn d (validateAmountInput pn a st))
              = Some (toSignificantDigits u
                        (calculateStampPrice u (Num (int (digits_value d))) (int (digits_value a)))
                      @ '' xBZZ'')"
    by (simp add: price_display_digits)
  show "price_display u (validateDepthInput pn d (validateAmountInput pn a st)) \<noteq> Some ''-''"
    unfolding p by (simp add: price_text_not_placeholder)
next
  assume a: "all_digits a \<and> 0 < digits_value a \<and> currentPrice c \<noteq> []"
  then show t: "ttl_display u (Some c) (validateAmountInput pn a st)
              = secondsToTimeString u
                  (convertAmountToSeconds u (Num (int (digits_value a)))
                     (parseInt (currentPrice c) (Some 10)))
                @ '' (with price of '' @ toFixed u (parseInt (currentPrice c) (Some 10))
                @ '' per block)''"
    by (simp add: ttl_display_digits)
  show "ttl_display u (Some c) (validateAmountInput pn a st) \<noteq> ''-''"
    unfolding t by (rule ttl_text_not_placeholder)
  show "ttl_display u (Some c) (validateDepthInput pn s (validateAmountInput pn a st))
              = ttl_display u (Some c) (validateAmountInput pn a st)"
    by (simp add: ttl_display_def validateDepthInput_def Let_def)
next
  show "ttl_display u cs (validateDepthInput pn s st) = ttl_display u cs st"
    by (simp add: ttl_display_def validateDepthInput_def Let_def)
qed

lemma js_100_digits: "all_digits (js ''100'') \<and> digits_value (js ''100'') = 100"
  by (simp add: js_def all_digits_def is_digit_def digits_value_def)

lemma depth_16_rejected:
  "depthError (validateDepthInput pn (js ''16'') st) = ''Minimal depth is 17''"
proof -
  have d: "all_digits (js ''16'') \<and> digits_value (js ''16'') = 16"
    by (simp add: js_def all_digits_def is_digit_def digits_value_def)
  then have "BigNumber pn (js ''16'') = BN_Finite (of_int 16)"
    by (simp add: BigNumber_digits_small)
  then show ?thesis
    using all_digits_plain [of "js ''16''"] d by (simp add: depth_low [of _ _ 16])
qed

text \<open>
  With the amount "100" accepted and the depth "16" rejected, the TTL display still
  shows a computed value.
\<close>

theorem ttl_ignores_depth_counterexample:
  "\<not> (\<forall>(u :: (int, int, int) utils) cs st.
         truthy (depthError st) \<or> truthy (amountError st)
         \<or> depthInput st = [] \<or> amountInput st = []
         \<longrightarrow> ttl_display u cs st = ''-'')"
proof
  assume a: "\<forall>(u :: (int, int, int) utils) cs st.
         truthy (depthError st) \<or> truthy (amountError st)
         \<or> depthInput st = [] \<or> amountInput st = []
         \<longrightarrow> ttl_display u cs st = ''-''"
  let ?st = "validateDepthInput (\<lambda>s. BN_NaN) (js ''16'')
               (validateAmountInput (\<lambda>s. BN_NaN) (js ''100'') initial_state)"
  have "truthy (depthError ?st)"
    by (simp add: depth_16_rejected truthy_def)
  with a have "ttl_display example_utils (Some example_chain_state) ?st = ''-''"
    by blast
  moreover have "ttl_display example_utils (Some example_chain_state) ?st
                 = ttl_display example_utils (Some example_chain_state)
                     (validateAmountInput (\<lambda>s. BN_NaN) (js ''100'') initial_state)"
    by (simp add: ttl_display_def validateDepthInput_def Let_def)
  moreover have "ttl_display example_utils (Some example_chain_state)
                   (validateAmountInput (\<lambda>s. BN_NaN) (js ''100'') initial_state) \<noteq> ''-''"
    using js_100_digits
    by (simp add: ttl_display_digits example_chain_state_def js_def ttl_text_not_placeholder)
  ultimately show False by simp
qed

theorem price_and_ttl_display_witness:
  "price_display example_utils
     (validateDepthInput (\<lambda>s. BN_NaN) (js ''16'')
        (validateAmountInput (\<lambda>s. BN_NaN) (js ''100'') initial_state)) = Some ''-''
   \<and> ttl_display example_utils (Some example_chain_state)
       (validateAmountInput (\<lambda>s. BN_NaN) (js ''0'') initial_state) = ''-''
   \<and> ttl_display example_utils None
       (validateAmountInput (\<lambda>s. BN_NaN) (js ''100'') initial_state) = ''-''
   \<and> price_display example_utils
       (validateDepthInput (\<lambda>s. BN_NaN) (js ''20'')
          (validateAmountInput (\<lambda>s. BN_NaN) (js ''100'') initial_state))
     = Some ''104857600 xBZZ''
   \<and> ttl_display example_utils (Some example_chain_state)
       (validateAmountInput (\<lambda>s. BN_NaN) (js ''100'') initial_state)
     = ''0 seconds (with price of 24000 per block)''
   \<and> ttl_display example_utils (Some example_chain_state)
       (validateDepthInput (\<lambda>s. BN_NaN) (js ''16'')
          (validateAmountInput (\<lambda>s. BN_NaN) (js ''100'') initial_state))
     = ''0 seconds (with price of 24000 per block)''"
proof -
  let ?pn = "\<lambda>s::js_string. BN_NaN"
  let ?a100 = "validateAmountInput ?pn (js ''100'') initial_state"
  let ?a0 = "validateAmountInput ?pn (js ''0'') initial_state"
  let ?bad = "validateDepthInput ?pn (js ''16'') ?a100"
  note t = price_and_ttl_display [where u = example_utils and pn = ?pn]
  have e16: "truthy (depthError ?bad)"
    by (simp add: depth_16_rejected truthy_def)
  have e0: "truthy (amountError ?a0)"
    using amount_0_rejected [of ?pn initial_state] by (simp add: truthy_def)
  have p24: "parseInt (js ''24000'') (Some 10) = Num 24000"
    by (simp add: parseInt_def js_def is_ws_def radix_digit_def radix_value_def)
  have c: "currentPrice example_chain_state \<noteq> []"
    by (simp add: example_chain_state_def js_def)
  have hyp: "all_digits (js ''100'') \<and> 0 < digits_value (js ''100'')
             \<and> all_digits (js ''20'') \<and> 17 \<le> digits_value (js ''20'')
             \<and> digits_value (js ''20'') \<le> 255"
    using js_100_digits js_20_digits by simp
  have c1: "price_display example_utils ?bad = Some ''-''"
    using t [of ?bad] e16 by blast
  have c2: "ttl_display example_utils (Some example_chain_state) ?a0 = ''-''"
    using t [of ?a0 "Some example_chain_state"] e0 by blast
  have c3: "ttl_display example_utils None ?a100 = ''-''"
    using t [of ?a100 None] by blast
  have c4: "price_display example_utils (validateDepthInput ?pn (js ''20'') ?a100)
            = Some ''104857600 xBZZ''"
    using t [of initial_state None "js ''100''" "js ''20''"] hyp js_100_digits js_20_digits
    by (simp add: example_utils_def bigint_toString_def nat_toString.simps)
  have c5: "ttl_display example_utils (Some example_chain_state) ?a100
            = ''0 seconds (with price of 24000 per block)''"
    using t [of initial_state None "js ''100''" "js ''20''" example_chain_state "js ''16''"]
      hyp c js_100_digits
    by (simp add: example_chain_state_def p24 example_utils_def bigint_toString_def
        nat_toString.simps)
  have c6: "ttl_display example_utils (Some example_chain_state) ?bad
            = ''0 seconds (with price of 24000 per block)''"
    using t [of initial_state None "js ''100''" "js ''20''" example_chain_state "js ''16''"]
      hyp c c5
    by simp
  show ?thesis using c1 c2 c3 c4 c5 c6 by blast
qed




section \<open>An amount that passes validation and that BigInt rejects\<close>







section \<open>The submit control\<close>

text \<open>
  C3. The submit control is disabled if and only if a submission is in flight, or the
  depth error is non-empty, or the amount error is non-empty, or the stored depth is
  empty, or the stored amount is empty. So the control is disabled whenever a
  validation error is present or a required field is empty.
\<close>

theorem submit_disabled_iff:
  "(submit_disabled st \<longleftrightarrow>
      submitting st \<or> depthError st \<noteq> [] \<or> amountError st \<noteq> []
      \<or> depthInput st = [] \<or> amountInput st = [])
   \<and> (depthError st \<noteq> [] \<or> amountError st \<noteq> [] \<or> depthInput st = [] \<or> amountInput st = []
        \<longrightarrow> submit_disabled st)"
  by (auto simp: submit_disabled_def truthy_def)

theorem submit_disabled_iff_witness:
  "submit_disabled initial_state
   \<and> submit_disabled
        \<lparr>depthInput = js ''0'', amountInput = js ''100'', labelInput = [], immutable = False,
         depthError = ''Minimal depth is 17'', amountError = [], submitting = False\<rparr>
   \<and> submit_disabled
        \<lparr>depthInput = js ''20'', amountInput = js ''100'', labelInput = [], immutable = False,
         depthError = [], amountError = [], submitting = True\<rparr>
   \<and> \<not> submit_disabled
        \<lparr>depthInput = js ''20'', amountInput = js ''100'', labelInput = [], immutable = False,
         depthError = [], amountError = [], submitting = False\<rparr>"
  using submit_disabled_iff [of initial_state]
    submit_disabled_iff
      [of "\<lparr>depthInput = js ''0'', amountInput = js ''100'', labelInput = [], immutable = False,
            depthError = ''Minimal depth is 17'', amountError = [], submitting = False\<rparr>"]
    submit_disabled_iff
      [of "\<lparr>depthInput = js ''20'', amountInput = js ''100'', labelInput = [], immutable = False,
            depthError = [], amountError = [], submitting = True\<rparr>"]
    submit_disabled_iff
      [of "\<lparr>depthInput = js ''20'', amountInput = js ''100'', labelInput = [], immutable = False,
            depthError = [], amountError = [], submitting = False\<rparr>"]
  by (simp add: initial_state_def js_def)

section \<open>A missing API client\<close>

text \<open>
  C7. Without an API client the deposit action throws the error
  "Bee Debug URL is not valid" before it calls anything, while the purchase's submit
  returns without a notification, a call or a change of the form's state.
\<close>

theorem missing_api_client:
  assumes "beeDebugApi e = None"
  shows "deposit_action e amount = (Inl (Error ''Bee Debug URL is not valid''), [])
         \<and> submit e st = (st, [])"
  using assms by (simp add: deposit_action_def submit_def)

theorem missing_api_client_witness:
  "deposit_action
     \<lparr>beeDebugApi = None, waitUntilStampExists = (\<lambda>b a. Inr ()), refresh = Inr (),
      onFinished = Inr (), syntaxError = (\<lambda>s. Error ''Cannot convert to a BigInt'')\<rparr> 5
     = (Inl (Error ''Bee Debug URL is not valid''), [])
   \<and> submit
       \<lparr>beeDebugApi = None, waitUntilStampExists = (\<lambda>b a. Inr ()), refresh = Inr (),
        onFinished = Inr (), syntaxError = (\<lambda>s. Error ''Cannot convert to a BigInt'')\<rparr>
       \<lparr>depthInput = js ''20'', amountInput = js ''100'', labelInput = [], immutable = False,
        depthError = [], amountError = [], submitting = False\<rparr>
     = (\<lparr>depthInput = js ''20'', amountInput = js ''100'', labelInput = [], immutable = False,
         depthError = [], amountError = [], submitting = False\<rparr>, [])"
  by (rule missing_api_client) simp

end
